theory Spec2Isabelle
  imports Main
begin

section \<open>Data model\<close>

text \<open>
  Identifiers (profile ids, API-key ids) are the strings the HTTP layer and the
  store exchange. A JavaScript value that may be \<^verbatim>\<open>undefined\<close> is an \<open>option\<close>.
\<close>

type_synonym ident = string

text \<open>The error object of a store query: only its \<^verbatim>\<open>code\<close> is inspected by the helpers.\<close>

record db_error =
  err_code :: string
  err_message :: string

text \<open>Rows of the two tables of the Credential Store.\<close>

record profile_row =
  pr_id :: ident
  pr_username :: string
  pr_email :: string
  pr_password_hash :: string
  pr_role :: string
  pr_created_at :: string

record api_key_row =
  ak_id :: ident
  ak_user_id :: ident
  ak_name :: string
  ak_key_hash :: string
  ak_last_used_at :: "string option"
  ak_created_at :: string

text \<open>
  The object stored in \<^verbatim>\<open>req.user\<close>. \<^verbatim>\<open>getUserById\<close> selects
  \<^verbatim>\<open>id, username, email, role, created_at\<close>; the API-key path builds
  \<^verbatim>\<open>{id, username, email, role}\<close> from a joined row whose profile may be null,
  so every field but the id may be undefined.
\<close>

record principal =
  u_id :: ident
  u_username :: "string option"
  u_email :: "string option"
  u_role :: "string option"
  u_created_at :: "string option"

text \<open>What \<^verbatim>\<open>getApiKeyByHash\<close> returns: the key row spread, plus the owner's fields.\<close>

record key_record =
  kr_row :: api_key_row
  kr_username :: "string option"
  kr_email :: "string option"
  kr_role :: "string option"

text \<open>The payload \<^verbatim>\<open>jwt.sign\<close> is given at login and registration.\<close>

record claims =
  userId :: ident
  username :: string
  role :: string

datatype token_error = JsonWebTokenError | TokenExpiredError | NotBeforeError

text \<open>The part of an Express request the middleware reads and writes.\<close>

record request =
  headers_authorization :: "string option"
  headers_x_api_key :: "string option"
  user :: "principal option"
  authType :: "string option"
  params_id :: string

datatype json = JString string | JArray "json list" | JUndefined

record response =
  status :: nat
  body :: "(string \<times> json) list"

text \<open>A middleware either calls \<^verbatim>\<open>next()\<close> or sends a response.\<close>

datatype outcome = Next | Respond response

section \<open>The Credential Store\<close>

text \<open>
  The hosted database behind the \<^verbatim>\<open>supabase\<close> client: two tables, the queries it
  has received so far, and for each query whether it meets an infrastructure
  failure (the error object the client then returns).
\<close>

datatype db_call =
    SelectProfileById ident
  | SelectKeyByHash string
  | UpdateKeyLastUsed ident
  | DeleteKey ident ident

record store =
  profiles :: "profile_row list"
  api_keys :: "api_key_row list"
  fault :: "db_call \<Rightarrow> db_error option"
  calls :: "db_call list"

definition record_call :: "store \<Rightarrow> db_call \<Rightarrow> store" where
  "record_call s c = s\<lparr>calls := calls s @ [c]\<rparr>"

text \<open>
  \<^verbatim>\<open>.single()\<close>: exactly one row is the data; no row or several rows are the
  error with code PGRST116 and null data.
\<close>

definition single :: "'a list \<Rightarrow> 'a option \<times> db_error option" where
  "single rows =
     (case rows of
        [r] \<Rightarrow> (Some r, None)
      | _ \<Rightarrow> (None, Some \<lparr>err_code = ''PGRST116'', err_message = ''no rows''\<rparr>))"

text \<open>\<^verbatim>\<open>from('profiles').select(...).eq('id', id).single()\<close>\<close>

definition select_profile_by_id ::
  "store \<Rightarrow> ident \<Rightarrow> (profile_row option \<times> db_error option) \<times> store" where
  "select_profile_by_id s i =
     (case fault s (SelectProfileById i) of
        Some e \<Rightarrow> ((None, Some e), record_call s (SelectProfileById i))
      | None \<Rightarrow> (single (filter (\<lambda>p. pr_id p = i) (profiles s)),
                 record_call s (SelectProfileById i)))"

text \<open>
  \<^verbatim>\<open>from('api_keys').select('*, profiles(username, email, role)').eq('key_hash', h).single()\<close>:
  the key row with its embedded owner profile (null when there is none).
\<close>

definition select_key_by_hash ::
  "store \<Rightarrow> string \<Rightarrow> ((api_key_row \<times> profile_row option) option \<times> db_error option) \<times> store" where
  "select_key_by_hash s h =
     (case fault s (SelectKeyByHash h) of
        Some e \<Rightarrow> ((None, Some e), record_call s (SelectKeyByHash h))
      | None \<Rightarrow>
          (single (map (\<lambda>k. (k, find (\<lambda>p. pr_id p = ak_user_id k) (profiles s)))
                       (filter (\<lambda>k. ak_key_hash k = h) (api_keys s))),
           record_call s (SelectKeyByHash h)))"

text \<open>\<^verbatim>\<open>from('api_keys').update({last_used_at: now}).eq('id', id)\<close>\<close>

definition update_key_last_used :: "store \<Rightarrow> string \<Rightarrow> ident \<Rightarrow> db_error option \<times> store" where
  "update_key_last_used s now i =
     (case fault s (UpdateKeyLastUsed i) of
        Some e \<Rightarrow> (Some e, record_call s (UpdateKeyLastUsed i))
      | None \<Rightarrow>
          (None,
           (record_call s (UpdateKeyLastUsed i))
             \<lparr>api_keys :=
                map (\<lambda>k. if ak_id k = i then k\<lparr>ak_last_used_at := Some now\<rparr> else k)
                    (api_keys s)\<rparr>))"

text \<open>
  \<^verbatim>\<open>from('api_keys').delete({count: 'exact'}).eq('id', id).eq('user_id', userId)\<close>:
  removes the rows that match both filters and counts them.
\<close>

definition delete_key :: "store \<Rightarrow> ident \<Rightarrow> ident \<Rightarrow> (db_error option \<times> nat) \<times> store" where
  "delete_key s i uid =
     (case fault s (DeleteKey i uid) of
        Some e \<Rightarrow> ((Some e, 0), record_call s (DeleteKey i uid))
      | None \<Rightarrow>
          ((None, length (filter (\<lambda>k. ak_id k = i \<and> ak_user_id k = uid) (api_keys s))),
           (record_call s (DeleteKey i uid))
             \<lparr>api_keys :=
                filter (\<lambda>k. \<not> (ak_id k = i \<and> ak_user_id k = uid)) (api_keys s)\<rparr>))"

section \<open>Database helpers (db.js)\<close>

definition principal_of_profile :: "profile_row \<Rightarrow> principal" where
  "principal_of_profile p =
     \<lparr>u_id = pr_id p, u_username = Some (pr_username p), u_email = Some (pr_email p),
      u_role = Some (pr_role p), u_created_at = Some (pr_created_at p)\<rparr>"

text \<open>
  \<^verbatim>\<open>if (error && error.code !== 'PGRST116') throw error; return data;\<close>
  A throw is the left summand.
\<close>

definition getUserById :: "store \<Rightarrow> ident \<Rightarrow> (db_error + principal option) \<times> store" where
  "getUserById s i =
     (case select_profile_by_id s i of
        ((d, e), s') \<Rightarrow>
          (case e of
             Some err \<Rightarrow>
               if err_code err \<noteq> ''PGRST116'' then (Inl err, s')
               else (Inr (map_option principal_of_profile d), s')
           | None \<Rightarrow> (Inr (map_option principal_of_profile d), s')))"

definition key_record_of :: "api_key_row \<times> profile_row option \<Rightarrow> key_record" where
  "key_record_of d =
     \<lparr>kr_row = fst d,
      kr_username = map_option pr_username (snd d),
      kr_email = map_option pr_email (snd d),
      kr_role = map_option pr_role (snd d)\<rparr>"

definition getApiKeyByHash :: "store \<Rightarrow> string \<Rightarrow> (db_error + key_record option) \<times> store" where
  "getApiKeyByHash s keyHash =
     (case select_key_by_hash s keyHash of
        ((d, e), s') \<Rightarrow>
          (case e of
             Some err \<Rightarrow>
               if err_code err \<noteq> ''PGRST116'' then (Inl err, s')
               else (Inr (map_option key_record_of d), s')
           | None \<Rightarrow> (Inr (map_option key_record_of d), s')))"

definition updateApiKeyLastUsed :: "store \<Rightarrow> string \<Rightarrow> ident \<Rightarrow> (db_error + unit) \<times> store" where
  "updateApiKeyLastUsed s now i =
     (case update_key_last_used s now i of
        (Some err, s') \<Rightarrow> (Inl err, s')
      | (None, s') \<Rightarrow> (Inr (), s'))"

text \<open>\<^verbatim>\<open>if (error) throw error; return { changes: count };\<close>\<close>

definition deleteApiKey :: "store \<Rightarrow> ident \<Rightarrow> ident \<Rightarrow> (db_error + nat) \<times> store" where
  "deleteApiKey s i uid =
     (case delete_key s i uid of
        ((Some err, n), s') \<Rightarrow> (Inl err, s')
      | ((None, n), s') \<Rightarrow> (Inr n, s'))"

section \<open>Authentication middleware (middleware/auth.js)\<close>

text \<open>
  The libraries the middleware calls: \<^verbatim>\<open>jwt.verify(token, JWT_SECRET)\<close>, which
  returns the decoded payload or throws; the hex SHA-256 digest; and the clock
  read by \<^verbatim>\<open>new Date().toISOString()\<close>.
\<close>

record deps =
  jwt_verify :: "string \<Rightarrow> token_error + claims"
  sha256_hex :: "string \<Rightarrow> string"
  now :: string

text \<open>
  \<^verbatim>\<open>s.split(' ')\<close>: the fields between single space characters; never empty.
\<close>

fun split_space :: "string \<Rightarrow> string list" where
  "split_space [] = [[]]"
| "split_space (c # cs) =
     (if c = CHR '' '' then [] # split_space cs
      else (c # hd (split_space cs)) # tl (split_space cs))"

text \<open>\<^verbatim>\<open>xs[i]\<close> on an array: undefined out of range.\<close>

definition js_index :: "'a list \<Rightarrow> nat \<Rightarrow> 'a option" where
  "js_index xs i = (if i < length xs then Some (xs ! i) else None)"

text \<open>
  \<^verbatim>\<open>const token = authHeader && authHeader.split(' ')[1];\<close>
  An undefined or empty header is falsy and is the value of the conjunction.
\<close>

definition bearer_token :: "string option \<Rightarrow> string option" where
  "bearer_token authHeader =
     (case authHeader of
        None \<Rightarrow> None
      | Some h \<Rightarrow> if h = [] then Some [] else js_index (split_space h) 1)"

text \<open>Truthiness of a value that is a string or undefined.\<close>

definition truthy :: "string option \<Rightarrow> bool" where
  "truthy v = (case v of None \<Rightarrow> False | Some t \<Rightarrow> t \<noteq> [])"

definition error_body :: "string \<Rightarrow> (string \<times> json) list" where
  "error_body msg = [(''error'', JString msg)]"

text \<open>The body of the \<^verbatim>\<open>try\<close> entered when the token is truthy (lines 255-268).\<close>

definition jwt_branch :: "deps \<Rightarrow> store \<Rightarrow> request \<Rightarrow> string \<Rightarrow> outcome \<times> request \<times> store" where
  "jwt_branch D s req token =
     (case jwt_verify D token of
        Inl err \<Rightarrow>
          (Respond \<lparr>status = 403, body = error_body ''Invalid or expired token''\<rparr>, req, s)
      | Inr decoded \<Rightarrow>
          (case getUserById s (userId decoded) of
             (Inl err, s') \<Rightarrow>
               (Respond \<lparr>status = 403, body = error_body ''Invalid or expired token''\<rparr>, req, s')
           | (Inr None, s') \<Rightarrow>
               (Respond \<lparr>status = 401, body = error_body ''Invalid token: user not found''\<rparr>,
                req, s')
           | (Inr (Some u), s') \<Rightarrow>
               (Next, req\<lparr>user := Some u, authType := Some ''jwt''\<rparr>, s')))"

text \<open>The body of the \<^verbatim>\<open>try\<close> entered when the API key is truthy (lines 273-296).\<close>

definition apikey_branch :: "deps \<Rightarrow> store \<Rightarrow> request \<Rightarrow> string \<Rightarrow> outcome \<times> request \<times> store" where
  "apikey_branch D s req apiKey =
     (case getApiKeyByHash s (sha256_hex D apiKey) of
        (Inl err, s') \<Rightarrow>
          (Respond \<lparr>status = 500,
                    body = error_body ''Internal server error during authentication''\<rparr>, req, s')
      | (Inr None, s') \<Rightarrow>
          (Respond \<lparr>status = 401, body = error_body ''Invalid API key''\<rparr>, req, s')
      | (Inr (Some keyRecord), s') \<Rightarrow>
          (let req' = req\<lparr>user := Some \<lparr>u_id = ak_user_id (kr_row keyRecord),
                                         u_username = kr_username keyRecord,
                                         u_email = kr_email keyRecord,
                                         u_role = kr_role keyRecord,
                                         u_created_at = None\<rparr>,
                            authType := Some ''apikey''\<rparr>
           in (case updateApiKeyLastUsed s' (now D) (ak_id (kr_row keyRecord)) of
                 (Inl err, s'') \<Rightarrow>
                   (Respond \<lparr>status = 500,
                             body = error_body ''Internal server error during authentication''\<rparr>,
                    req', s'')
               | (Inr u, s'') \<Rightarrow> (Next, req', s''))))"

text \<open>What follows the token test when the token is falsy (lines 271-299).\<close>

definition after_token :: "deps \<Rightarrow> store \<Rightarrow> request \<Rightarrow> outcome \<times> request \<times> store" where
  "after_token D s req =
     (case headers_x_api_key req of
        Some apiKey \<Rightarrow>
          if apiKey \<noteq> [] then apikey_branch D s req apiKey
          else (Respond \<lparr>status = 401, body = error_body ''Authentication required''\<rparr>, req, s)
      | None \<Rightarrow>
          (Respond \<lparr>status = 401, body = error_body ''Authentication required''\<rparr>, req, s))"

definition authenticateToken :: "deps \<Rightarrow> store \<Rightarrow> request \<Rightarrow> outcome \<times> request \<times> store" where
  "authenticateToken D s req =
     (if user req \<noteq> None then (Next, req, s)
      else
        (case bearer_token (headers_authorization req) of
           Some token \<Rightarrow>
             if token \<noteq> [] then jwt_branch D s req token else after_token D s req
         | None \<Rightarrow> after_token D s req))"

text \<open>
  \<^verbatim>\<open>allowedRoles.includes(req.user.role)\<close>: an undefined role is in no list of
  role names.
\<close>

definition includes_role :: "string list \<Rightarrow> string option \<Rightarrow> bool" where
  "includes_role allowedRoles r = (case r of None \<Rightarrow> False | Some x \<Rightarrow> x \<in> set allowedRoles)"

definition json_of_role :: "string option \<Rightarrow> json" where
  "json_of_role r = (case r of None \<Rightarrow> JUndefined | Some x \<Rightarrow> JString x)"

definition requireRole :: "string list \<Rightarrow> request \<Rightarrow> outcome" where
  "requireRole allowedRoles req =
     (case user req of
        None \<Rightarrow> Respond \<lparr>status = 401, body = error_body ''Authentication required''\<rparr>
      | Some u \<Rightarrow>
          if \<not> includes_role allowedRoles (u_role u) then
            Respond \<lparr>status = 403,
                     body = [(''error'', JString ''Insufficient permissions''),
                             (''required'', JArray (map JString allowedRoles)),
                             (''current'', json_of_role (u_role u))]\<rparr>
          else Next)"

text \<open>The \<^verbatim>\<open>try\<close> of \<^verbatim>\<open>optionalAuth\<close> (lines 335-345).\<close>

definition optional_jwt_branch ::
  "deps \<Rightarrow> store \<Rightarrow> request \<Rightarrow> string \<Rightarrow> outcome \<times> request \<times> store" where
  "optional_jwt_branch D s req token =
     (case jwt_verify D token of
        Inl err \<Rightarrow> (Next, req, s)
      | Inr decoded \<Rightarrow>
          (case getUserById s (userId decoded) of
             (Inl err, s') \<Rightarrow> (Next, req, s')
           | (Inr None, s') \<Rightarrow> (Next, req, s')
           | (Inr (Some u), s') \<Rightarrow> (Next, req\<lparr>user := Some u\<rparr>, s')))"

definition optionalAuth :: "deps \<Rightarrow> store \<Rightarrow> request \<Rightarrow> outcome \<times> request \<times> store" where
  "optionalAuth D s req =
     (case bearer_token (headers_authorization req) of
        Some token \<Rightarrow>
          if token \<noteq> [] then optional_jwt_branch D s req token else (Next, req, s)
      | None \<Rightarrow> (Next, req, s))"

section \<open>API-key routes (routes/api_keys.js)\<close>

text \<open>
  The handler of \<^verbatim>\<open>DELETE /api/keys/:id\<close>, entered after \<^verbatim>\<open>authenticateToken\<close> has
  called \<^verbatim>\<open>next()\<close>. Reading \<^verbatim>\<open>req.user.id\<close> of an undefined user throws inside the
  \<^verbatim>\<open>try\<close>.
\<close>

definition delete_key_handler :: "store \<Rightarrow> request \<Rightarrow> response \<times> store" where
  "delete_key_handler s req =
     (case user req of
        None \<Rightarrow> (\<lparr>status = 500, body = error_body ''Failed to revoke API key''\<rparr>, s)
      | Some u \<Rightarrow>
          (case deleteApiKey s (params_id req) (u_id u) of
             (Inl err, s') \<Rightarrow>
               (\<lparr>status = 500, body = error_body ''Failed to revoke API key''\<rparr>, s')
           | (Inr changes, s') \<Rightarrow>
               if changes = 0 then
                 (\<lparr>status = 404, body = error_body ''API key not found''\<rparr>, s')
               else
                 (\<lparr>status = 200,
                   body = [(''message'', JString ''API key revoked successfully'')]\<rparr>, s')))"

text \<open>\<^verbatim>\<open>router.delete('/:id', authenticateToken, handler)\<close>\<close>

definition delete_key_route :: "deps \<Rightarrow> store \<Rightarrow> request \<Rightarrow> response \<times> store" where
  "delete_key_route D s req =
     (case authenticateToken D s req of
        (Respond r, req', s') \<Rightarrow> (r, s')
      | (Next, req', s') \<Rightarrow> delete_key_handler s' req')"

section \<open>Observations\<close>

text \<open>The status of the response a middleware sent, if it sent one.\<close>

definition outcome_status :: "outcome \<Rightarrow> nat option" where
  "outcome_status out = (case out of Next \<Rightarrow> None | Respond r \<Rightarrow> Some (status r))"

text \<open>The text of an Authorization header between its first and its second space.\<close>

definition after_first_space :: "string \<Rightarrow> string" where
  "after_first_space h =
     takeWhile (\<lambda>c. c \<noteq> CHR '' '') (tl (dropWhile (\<lambda>c. c \<noteq> CHR '' '') h))"

section \<open>Example data\<close>

definition alice :: profile_row where
  "alice = \<lparr>pr_id = ''u1'', pr_username = ''alice'', pr_email = ''alice@example.org'',
            pr_password_hash = ''x'', pr_role = ''admin'', pr_created_at = ''2026-01-01''\<rparr>"

definition bob :: profile_row where
  "bob = \<lparr>pr_id = ''u2'', pr_username = ''bob'', pr_email = ''bob@example.org'',
          pr_password_hash = ''y'', pr_role = ''viewer'', pr_created_at = ''2026-01-02''\<rparr>"

definition bob_key :: api_key_row where
  "bob_key = \<lparr>ak_id = ''k1'', ak_user_id = ''u2'', ak_name = ''ci'',
              ak_key_hash = ''h:atla_bob'', ak_last_used_at = None,
              ak_created_at = ''2026-01-03''\<rparr>"

definition no_fault :: "db_call \<Rightarrow> db_error option" where
  "no_fault c = None"

definition unreachable :: db_error where
  "unreachable = \<lparr>err_code = ''08006'', err_message = ''connection failure''\<rparr>"

definition store0 :: store where
  "store0 = \<lparr>profiles = [alice, bob], api_keys = [bob_key], fault = no_fault, calls = []\<rparr>"

text \<open>The store when the \<^verbatim>\<open>last_used_at\<close> update of key k1 fails.\<close>

definition store_touch_down :: store where
  "store_touch_down =
     store0\<lparr>fault := (\<lambda>c. if c = UpdateKeyLastUsed ''k1'' then Some unreachable else None)\<rparr>"

text \<open>The store when the profile lookup of user u1 fails.\<close>

definition store_profiles_down :: store where
  "store_profiles_down =
     store0\<lparr>fault := (\<lambda>c. if c = SelectProfileById ''u1'' then Some unreachable else None)\<rparr>"

text \<open>The store when the key lookup by hash fails.\<close>

definition store_keys_down :: store where
  "store_keys_down =
     store0\<lparr>fault := (\<lambda>c. if c = SelectKeyByHash ''h:atla_bob'' then Some unreachable else None)\<rparr>"

text \<open>
  A token codec that accepts one token of alice, one token of a user (u9) who has
  no profile, rejects one token as expired and everything else as malformed.
\<close>

definition verify0 :: "string \<Rightarrow> token_error + claims" where
  "verify0 t =
     (if t = ''alice-token'' then Inr \<lparr>userId = ''u1'', username = ''alice'', role = ''admin''\<rparr>
      else if t = ''ghost-token'' then Inr \<lparr>userId = ''u9'', username = ''ghost'', role = ''viewer''\<rparr>
      else if t = ''old-token'' then Inl TokenExpiredError
      else Inl JsonWebTokenError)"

definition deps0 :: deps where
  "deps0 = \<lparr>jwt_verify = verify0, sha256_hex = (\<lambda>k. ''h:'' @ k),
            now = ''2026-11-03T00:00:00.000Z''\<rparr>"

definition req0 :: request where
  "req0 = \<lparr>headers_authorization = None, headers_x_api_key = None, user = None,
           authType = None, params_id = []\<rparr>"

section \<open>Auxiliary lemmas\<close>

lemma split_space_nonempty: "split_space h \<noteq> []"
  by (cases h) simp_all

lemma hd_split_space: "hd (split_space h) = takeWhile (\<lambda>c. c \<noteq> CHR '' '') h"
  by (induction h) simp_all

lemma split_space_no_space: "CHR '' '' \<notin> set h \<Longrightarrow> split_space h = [h]"
  by (induction h) auto

lemma split_space_space:
  "CHR '' '' \<in> set h \<Longrightarrow>
   split_space h =
     takeWhile (\<lambda>c. c \<noteq> CHR '' '') h # split_space (tl (dropWhile (\<lambda>c. c \<noteq> CHR '' '') h))"
proof (induction h)
  case Nil
  then show ?case by simp
next
  case (Cons c cs)
  show ?case
  proof (cases "c = CHR '' ''")
    case True
    then show ?thesis by simp
  next
    case False
    with Cons.prems have "CHR '' '' \<in> set cs" by simp
    with Cons.IH False show ?thesis by simp
  qed
qed

lemma bearer_token_space:
  assumes "CHR '' '' \<in> set h"
  shows "bearer_token (Some h) = Some (after_first_space h)"
proof -
  from assms have ne: "h \<noteq> []" by auto
  obtain w ws where r: "split_space (tl (dropWhile (\<lambda>c. c \<noteq> CHR '' '') h)) = w # ws"
    using split_space_nonempty by (cases "split_space (tl (dropWhile (\<lambda>c. c \<noteq> CHR '' '') h))") auto
  have "w = after_first_space h"
    using hd_split_space [of "tl (dropWhile (\<lambda>c. c \<noteq> CHR '' '') h)"] r
    by (simp add: after_first_space_def)
  with r ne assms show ?thesis
    by (simp add: bearer_token_def js_index_def split_space_space)
qed

lemma bearer_token_no_space:
  "CHR '' '' \<notin> set h \<Longrightarrow> \<not> truthy (bearer_token (Some h))"
  by (simp add: bearer_token_def truthy_def js_index_def split_space_no_space)

lemma after_first_space_nonempty:
  "after_first_space h \<noteq> [] \<Longrightarrow> CHR '' '' \<in> set h"
proof (rule ccontr)
  assume ne: "after_first_space h \<noteq> []" and no: "CHR '' '' \<notin> set h"
  from no have d: "dropWhile (\<lambda>c. c \<noteq> CHR '' '') h = []" by auto
  have "after_first_space h = []" unfolding after_first_space_def d by simp
  with ne show False by simp
qed

lemma bearer_token_empty_field:
  "after_first_space h = [] \<Longrightarrow> \<not> truthy (bearer_token (Some h))"
proof (cases "CHR '' '' \<in> set h")
  case True
  assume "after_first_space h = []"
  with True show ?thesis by (simp add: bearer_token_space truthy_def)
next
  case False
  then show ?thesis by (rule bearer_token_no_space)
qed

lemma after_token_key:
  "headers_x_api_key req = Some k \<Longrightarrow> k \<noteq> [] \<Longrightarrow> after_token D s req = apikey_branch D s req k"
  by (simp add: after_token_def)

lemma after_token_no_key:
  "\<not> truthy (headers_x_api_key req) \<Longrightarrow>
   after_token D s req =
     (Respond \<lparr>status = 401, body = error_body ''Authentication required''\<rparr>, req, s)"
  by (simp add: after_token_def truthy_def split: option.splits)

lemma getUserById_store: "snd (getUserById s i) = record_call s (SelectProfileById i)"
  by (simp add: getUserById_def select_profile_by_id_def split: option.splits prod.splits)

lemma getApiKeyByHash_store: "snd (getApiKeyByHash s h) = record_call s (SelectKeyByHash h)"
  by (simp add: getApiKeyByHash_def select_key_by_hash_def split: option.splits prod.splits)

lemma getUserById_row:
  "fault s (SelectProfileById i) = None \<Longrightarrow> filter (\<lambda>p. pr_id p = i) (profiles s) = [row] \<Longrightarrow>
   getUserById s i = (Inr (Some (principal_of_profile row)), record_call s (SelectProfileById i))"
  by (simp add: getUserById_def select_profile_by_id_def single_def)

lemma getUserById_absent:
  "fault s (SelectProfileById i) = None \<Longrightarrow> filter (\<lambda>p. pr_id p = i) (profiles s) = [] \<Longrightarrow>
   getUserById s i = (Inr None, record_call s (SelectProfileById i))"
  by (simp add: getUserById_def select_profile_by_id_def single_def)

lemma getUserById_fault:
  "fault s (SelectProfileById i) = Some e \<Longrightarrow> err_code e \<noteq> ''PGRST116'' \<Longrightarrow>
   getUserById s i = (Inl e, record_call s (SelectProfileById i))"
  by (simp add: getUserById_def select_profile_by_id_def)

lemma getApiKeyByHash_row:
  "fault s (SelectKeyByHash h) = None \<Longrightarrow> filter (\<lambda>k. ak_key_hash k = h) (api_keys s) = [row] \<Longrightarrow>
   getApiKeyByHash s h =
     (Inr (Some (key_record_of (row, find (\<lambda>p. pr_id p = ak_user_id row) (profiles s)))),
      record_call s (SelectKeyByHash h))"
  by (simp add: getApiKeyByHash_def select_key_by_hash_def single_def)

lemma getApiKeyByHash_absent:
  "fault s (SelectKeyByHash h) = None \<Longrightarrow> filter (\<lambda>k. ak_key_hash k = h) (api_keys s) = [] \<Longrightarrow>
   getApiKeyByHash s h = (Inr None, record_call s (SelectKeyByHash h))"
  by (simp add: getApiKeyByHash_def select_key_by_hash_def single_def)

lemma getApiKeyByHash_fault:
  "fault s (SelectKeyByHash h) = Some e \<Longrightarrow> err_code e \<noteq> ''PGRST116'' \<Longrightarrow>
   getApiKeyByHash s h = (Inl e, record_call s (SelectKeyByHash h))"
  by (simp add: getApiKeyByHash_def select_key_by_hash_def)

lemma authenticateToken_token:
  "user req = None \<Longrightarrow> bearer_token (headers_authorization req) = Some t \<Longrightarrow> t \<noteq> [] \<Longrightarrow>
   authenticateToken D s req = jwt_branch D s req t"
  by (simp add: authenticateToken_def)

lemma authenticateToken_no_token:
  "user req = None \<Longrightarrow> \<not> truthy (bearer_token (headers_authorization req)) \<Longrightarrow>
   authenticateToken D s req = after_token D s req"
  by (simp add: authenticateToken_def truthy_def split: option.splits)

lemma jwt_branch_store:
  "snd (snd (jwt_branch D s req t)) = s \<or>
   (\<exists>i. snd (snd (jwt_branch D s req t)) = record_call s (SelectProfileById i))"
proof (cases "jwt_verify D t")
  case (Inl e)
  then show ?thesis by (simp add: jwt_branch_def)
next
  case (Inr c)
  have "snd (snd (jwt_branch D s req t)) = snd (getUserById s (userId c))"
    using Inr by (simp add: jwt_branch_def split: prod.splits sum.splits option.splits)
  then have "snd (snd (jwt_branch D s req t)) = record_call s (SelectProfileById (userId c))"
    by (simp only: getUserById_store)
  then show ?thesis by blast
qed

lemma jwt_branch_header:
  "jwt_branch D s (req\<lparr>headers_x_api_key := k\<rparr>) t =
     (case jwt_branch D s req t of (out, r, s') \<Rightarrow> (out, r\<lparr>headers_x_api_key := k\<rparr>, s'))"
  by (simp add: jwt_branch_def split: prod.splits sum.splits option.splits)

lemma optional_jwt_branch_store:
  "snd (snd (optional_jwt_branch D s req t)) = s \<or>
   (\<exists>i. snd (snd (optional_jwt_branch D s req t)) = record_call s (SelectProfileById i))"
proof (cases "jwt_verify D t")
  case (Inl e)
  then show ?thesis by (simp add: optional_jwt_branch_def)
next
  case (Inr c)
  have "snd (snd (optional_jwt_branch D s req t)) = snd (getUserById s (userId c))"
    using Inr by (simp add: optional_jwt_branch_def split: prod.splits sum.splits option.splits)
  then have "snd (snd (optional_jwt_branch D s req t)) = record_call s (SelectProfileById (userId c))"
    by (simp only: getUserById_store)
  then show ?thesis by blast
qed

lemma optional_jwt_branch_header:
  "optional_jwt_branch D s (req\<lparr>headers_x_api_key := k\<rparr>) t =
     (case optional_jwt_branch D s req t of (out, r, s') \<Rightarrow> (out, r\<lparr>headers_x_api_key := k\<rparr>, s'))"
  by (simp add: optional_jwt_branch_def split: prod.splits sum.splits option.splits)

lemma optional_jwt_branch_next: "fst (optional_jwt_branch D s req t) = Next"
  by (simp add: optional_jwt_branch_def split: prod.splits sum.splits option.splits)

section \<open>Role Guard\<close>

text \<open>
  C7. The guard built by \<^verbatim>\<open>requireRole\<close> calls \<^verbatim>\<open>next()\<close> exactly when the role of the
  attached principal is one of the allowed roles; a viewer is denied (403) against
  admin and contributor, an admin is let through against admin; with no principal
  attached the answer is 401 ``Authentication required'', not the 403 of
  insufficient permissions.
\<close>

theorem requireRole_guard:
  "(user req = Some u \<longrightarrow>
      (requireRole allowedRoles req = Next) = includes_role allowedRoles (u_role u)) \<and>
   (user req = Some u \<longrightarrow> u_role u = Some r \<longrightarrow>
      (requireRole allowedRoles req = Next) = (r \<in> set allowedRoles)) \<and>
   (user req = Some u \<longrightarrow> \<not> includes_role allowedRoles (u_role u) \<longrightarrow>
      outcome_status (requireRole allowedRoles req) = Some 403) \<and>
   (user req = Some u \<longrightarrow> u_role u = Some ''viewer'' \<longrightarrow>
      outcome_status (requireRole [''admin'', ''contributor''] req) = Some 403) \<and>
   (user req = Some u \<longrightarrow> u_role u = Some ''admin'' \<longrightarrow>
      requireRole [''admin''] req = Next) \<and>
   (user req = None \<longrightarrow>
      requireRole allowedRoles req =
        Respond \<lparr>status = 401, body = error_body ''Authentication required''\<rparr>)"
  by (simp add: requireRole_def includes_role_def outcome_status_def)

theorem requireRole_guard_witness:
  "outcome_status (requireRole [''admin'', ''contributor'']
      (req0\<lparr>user := Some (principal_of_profile bob)\<rparr>)) = Some 403 \<and>
   requireRole [''admin''] (req0\<lparr>user := Some (principal_of_profile alice)\<rparr>) = Next \<and>
   requireRole [''admin''] req0 =
     Respond \<lparr>status = 401, body = error_body ''Authentication required''\<rparr>"
proof -
  have b: "user (req0\<lparr>user := Some (principal_of_profile bob)\<rparr>) = Some (principal_of_profile bob)"
    and br: "u_role (principal_of_profile bob) = Some ''viewer''"
    and a: "user (req0\<lparr>user := Some (principal_of_profile alice)\<rparr>) = Some (principal_of_profile alice)"
    and ar: "u_role (principal_of_profile alice) = Some ''admin''"
    and n: "user req0 = None"
    by (simp_all add: principal_of_profile_def bob_def alice_def req0_def)
  from requireRole_guard
       [of "req0\<lparr>user := Some (principal_of_profile bob)\<rparr>" "principal_of_profile bob" "[]" "''viewer''"]
       b br
  have 1: "outcome_status (requireRole [''admin'', ''contributor'']
      (req0\<lparr>user := Some (principal_of_profile bob)\<rparr>)) = Some 403" by blast
  from requireRole_guard
       [of "req0\<lparr>user := Some (principal_of_profile alice)\<rparr>" "principal_of_profile alice" "[]" "''admin''"]
       a ar
  have 2: "requireRole [''admin''] (req0\<lparr>user := Some (principal_of_profile alice)\<rparr>) = Next"
    by blast
  from requireRole_guard [of req0 "principal_of_profile alice" "[''admin'']" "''admin''"] n
  have 3: "requireRole [''admin''] req0 =
     Respond \<lparr>status = 401, body = error_body ''Authentication required''\<rparr>" by blast
  from 1 2 3 show ?thesis by blast
qed

section \<open>Auth Gate: token precedence\<close>

text \<open>
  C5 (as the code has it). The bearer token of a request is the text between the
  first and the second space of its Authorization header. When that text is not
  empty, \<^verbatim>\<open>authenticateToken\<close> sends the store no key-hash lookup and leaves the key
  table untouched, and its result does not depend on the X-API-Key header (the
  header is carried along unread); when moreover no principal was attached before,
  the token verifies and the store holds the profile row of the token's
  \<^verbatim>\<open>userId\<close>, the gate calls \<^verbatim>\<open>next()\<close> with the principal read from that row,
  whatever the X-API-Key header holds. When that text is empty (no space in the
  header, a space at its end, or two spaces in a row) the header carries no bearer
  token for the gate: with no principal attached before and a non-empty X-API-Key
  header, the gate resolves the API key.
\<close>

theorem token_precedence:
  assumes "headers_authorization req = Some h"
  shows
  "(after_first_space h \<noteq> [] \<longrightarrow>
      (\<forall>kh. SelectKeyByHash kh \<notin> set (calls s) \<longrightarrow>
         SelectKeyByHash kh \<notin> set (calls (snd (snd (authenticateToken D s req))))) \<and>
      api_keys (snd (snd (authenticateToken D s req))) = api_keys s \<and>
      (\<forall>k. authenticateToken D s (req\<lparr>headers_x_api_key := k\<rparr>) =
         (case authenticateToken D s req of
            (out, r, s') \<Rightarrow> (out, r\<lparr>headers_x_api_key := k\<rparr>, s'))) \<and>
      (\<forall>c row. user req = None \<longrightarrow> jwt_verify D (after_first_space h) = Inr c \<longrightarrow>
         fault s (SelectProfileById (userId c)) = None \<longrightarrow>
         filter (\<lambda>p. pr_id p = userId c) (profiles s) = [row] \<longrightarrow>
         fst (authenticateToken D s req) = Next \<and>
         user (fst (snd (authenticateToken D s req))) = Some (principal_of_profile row) \<and>
         u_id (principal_of_profile row) = userId c)) \<and>
   (after_first_space h = [] \<longrightarrow> user req = None \<longrightarrow>
      (\<forall>k. headers_x_api_key req = Some k \<longrightarrow> k \<noteq> [] \<longrightarrow>
         authenticateToken D s req = apikey_branch D s req k))"
proof (intro conjI impI)
  assume ne: "after_first_space h \<noteq> []"
  define t where "t = after_first_space h"
  have sp: "CHR '' '' \<in> set h" using ne by (rule after_first_space_nonempty)
  have bt: "bearer_token (headers_authorization req) = Some t"
    using assms sp by (simp add: bearer_token_space t_def)
  have tne: "t \<noteq> []" using ne by (simp add: t_def)
  have st: "snd (snd (authenticateToken D s req)) = s \<or>
        (\<exists>i. snd (snd (authenticateToken D s req)) = record_call s (SelectProfileById i))"
    using bt tne jwt_branch_store [of D s req t]
    by (cases "user req") (simp_all add: authenticateToken_def)
  then show "\<forall>kh. SelectKeyByHash kh \<notin> set (calls s) \<longrightarrow>
        SelectKeyByHash kh \<notin> set (calls (snd (snd (authenticateToken D s req))))"
    by (auto simp: record_call_def)
  from st show "api_keys (snd (snd (authenticateToken D s req))) = api_keys s"
    by (auto simp: record_call_def)
  show "\<forall>k. authenticateToken D s (req\<lparr>headers_x_api_key := k\<rparr>) =
        (case authenticateToken D s req of
           (out, r, s') \<Rightarrow> (out, r\<lparr>headers_x_api_key := k\<rparr>, s'))"
    using bt tne by (simp add: authenticateToken_def jwt_branch_header)
  show "\<forall>c row. user req = None \<longrightarrow> jwt_verify D (after_first_space h) = Inr c \<longrightarrow>
        fault s (SelectProfileById (userId c)) = None \<longrightarrow>
        filter (\<lambda>p. pr_id p = userId c) (profiles s) = [row] \<longrightarrow>
        fst (authenticateToken D s req) = Next \<and>
        user (fst (snd (authenticateToken D s req))) = Some (principal_of_profile row) \<and>
        u_id (principal_of_profile row) = userId c"
  proof (intro allI impI)
    fix c row
    assume u: "user req = None" and v: "jwt_verify D (after_first_space h) = Inr c"
      and f: "fault s (SelectProfileById (userId c)) = None"
      and r: "filter (\<lambda>p. pr_id p = userId c) (profiles s) = [row]"
    have "row \<in> set (filter (\<lambda>p. pr_id p = userId c) (profiles s))" using r by simp
    then have i: "pr_id row = userId c" by simp
    have v': "jwt_verify D t = Inr c" using v by (simp add: t_def)
    have "authenticateToken D s req = jwt_branch D s req t"
      using u bt tne by (rule authenticateToken_token)
    then show "fst (authenticateToken D s req) = Next \<and>
        user (fst (snd (authenticateToken D s req))) = Some (principal_of_profile row) \<and>
        u_id (principal_of_profile row) = userId c"
      using v' i by (simp add: jwt_branch_def getUserById_row [OF f r] principal_of_profile_def)
  qed
next
  assume e: "after_first_space h = []" and u: "user req = None"
  have "\<not> truthy (bearer_token (headers_authorization req))"
    using assms bearer_token_empty_field [OF e] by simp
  with u have "authenticateToken D s req = after_token D s req"
    by (rule authenticateToken_no_token)
  then show "\<forall>k. headers_x_api_key req = Some k \<longrightarrow> k \<noteq> [] \<longrightarrow>
         authenticateToken D s req = apikey_branch D s req k"
    by (simp add: after_token_key)
qed

theorem token_precedence_witness:
  "fst (authenticateToken deps0 store0
          (req0\<lparr>headers_authorization := Some ''Bearer alice-token'',
                 headers_x_api_key := Some ''atla_bob''\<rparr>)) = Next \<and>
   user (fst (snd (authenticateToken deps0 store0
          (req0\<lparr>headers_authorization := Some ''Bearer alice-token'',
                 headers_x_api_key := Some ''atla_bob''\<rparr>)))) = Some (principal_of_profile alice) \<and>
   SelectKeyByHash ''h:atla_bob'' \<notin> set (calls (snd (snd (authenticateToken deps0 store0
          (req0\<lparr>headers_authorization := Some ''Bearer alice-token'',
                 headers_x_api_key := Some ''atla_bob''\<rparr>))))) \<and>
   authenticateToken deps0 store0
          (req0\<lparr>headers_authorization := Some ''Bearer  alice-token'',
                 headers_x_api_key := Some ''atla_bob''\<rparr>) =
     apikey_branch deps0 store0
          (req0\<lparr>headers_authorization := Some ''Bearer  alice-token'',
                 headers_x_api_key := Some ''atla_bob''\<rparr>) ''atla_bob''"
proof -
  let ?req = "req0\<lparr>headers_authorization := Some ''Bearer alice-token'',
                    headers_x_api_key := Some ''atla_bob''\<rparr>"
  let ?two = "req0\<lparr>headers_authorization := Some ''Bearer  alice-token'',
                    headers_x_api_key := Some ''atla_bob''\<rparr>"
  have h: "headers_authorization ?req = Some ''Bearer alice-token''"
    "headers_authorization ?two = Some ''Bearer  alice-token''"
    by simp_all
  have ne: "after_first_space ''Bearer alice-token'' \<noteq> []"
    and e: "after_first_space ''Bearer  alice-token'' = []"
    by (simp_all add: after_first_space_def)
  have u: "user ?req = None" "user ?two = None"
    "headers_x_api_key ?two = Some ''atla_bob''" "''atla_bob'' \<noteq> []"
    by (simp_all add: req0_def)
  have v: "jwt_verify deps0 (after_first_space ''Bearer alice-token'') =
             Inr \<lparr>userId = ''u1'', username = ''alice'', role = ''admin''\<rparr>"
    by (simp add: after_first_space_def deps0_def verify0_def)
  have f: "fault store0 (SelectProfileById
             (userId \<lparr>userId = ''u1'', username = ''alice'', role = ''admin''\<rparr>)) = None"
    by (simp add: store0_def no_fault_def)
  have r: "filter (\<lambda>p. pr_id p = userId \<lparr>userId = ''u1'', username = ''alice'', role = ''admin''\<rparr>)
             (profiles store0) = [alice]"
    by (simp add: store0_def alice_def bob_def)
  have c: "SelectKeyByHash ''h:atla_bob'' \<notin> set (calls store0)"
    by (simp add: store0_def)
  from token_precedence [OF h(1), of store0 deps0] ne u(1) v f r c
  have 1: "fst (authenticateToken deps0 store0 ?req) = Next \<and>
     user (fst (snd (authenticateToken deps0 store0 ?req))) = Some (principal_of_profile alice) \<and>
     SelectKeyByHash ''h:atla_bob'' \<notin> set (calls (snd (snd (authenticateToken deps0 store0 ?req))))"
    by blast
  from token_precedence [OF h(2), of store0 deps0] e u(2,3,4)
  have 2: "authenticateToken deps0 store0 ?two = apikey_branch deps0 store0 ?two ''atla_bob''"
    by blast
  from 1 2 show ?thesis by blast
qed

theorem two_space_header_counterexample:
  "CHR '' '' \<in> set ''Bearer  alice-token'' \<and>
   jwt_verify deps0 ''alice-token'' = Inr \<lparr>userId = ''u1'', username = ''alice'', role = ''admin''\<rparr> \<and>
   fst (authenticateToken deps0 store0
          (req0\<lparr>headers_authorization := Some ''Bearer  alice-token'',
                 headers_x_api_key := Some ''atla_bob''\<rparr>)) = Next \<and>
   user (fst (snd (authenticateToken deps0 store0
          (req0\<lparr>headers_authorization := Some ''Bearer  alice-token'',
                 headers_x_api_key := Some ''atla_bob''\<rparr>)))) =
     Some \<lparr>u_id = ''u2'', u_username = Some ''bob'', u_email = Some ''bob@example.org'',
           u_role = Some ''viewer'', u_created_at = None\<rparr> \<and>
   authType (fst (snd (authenticateToken deps0 store0
          (req0\<lparr>headers_authorization := Some ''Bearer  alice-token'',
                 headers_x_api_key := Some ''atla_bob''\<rparr>)))) = Some ''apikey'' \<and>
   calls (snd (snd (authenticateToken deps0 store0
          (req0\<lparr>headers_authorization := Some ''Bearer  alice-token'',
                 headers_x_api_key := Some ''atla_bob''\<rparr>)))) =
     [SelectKeyByHash ''h:atla_bob'', UpdateKeyLastUsed ''k1'']"
proof -
  let ?two = "req0\<lparr>headers_authorization := Some ''Bearer  alice-token'',
                    headers_x_api_key := Some ''atla_bob''\<rparr>"
  have 1: "CHR '' '' \<in> set ''Bearer  alice-token''" by simp
  have 2: "jwt_verify deps0 ''alice-token'' =
             Inr \<lparr>userId = ''u1'', username = ''alice'', role = ''admin''\<rparr>"
    by (simp add: deps0_def verify0_def)
  have b: "bearer_token (Some ''Bearer  alice-token'') = Some []"
    by (simp add: bearer_token_space after_first_space_def)
  have k: "authenticateToken deps0 store0 ?two = apikey_branch deps0 store0 ?two ''atla_bob''"
    by (simp add: authenticateToken_def b after_token_def req0_def)
  have sha: "sha256_hex deps0 ''atla_bob'' = ''h:atla_bob''" by (simp add: deps0_def)
  have fd: "find (\<lambda>p. pr_id p = ak_user_id bob_key) (profiles store0) = Some bob"
    by (simp add: store0_def bob_key_def alice_def bob_def)
  have g: "getApiKeyByHash store0 ''h:atla_bob'' =
     (Inr (Some (key_record_of (bob_key, Some bob))),
      record_call store0 (SelectKeyByHash ''h:atla_bob''))"
    using getApiKeyByHash_row [of store0 "''h:atla_bob''" bob_key]
    by (simp add: fd) (simp add: store0_def no_fault_def bob_key_def)
  have up: "updateApiKeyLastUsed (record_call store0 (SelectKeyByHash ''h:atla_bob''))
              (now deps0) ''k1'' =
     (Inr (),
      (record_call (record_call store0 (SelectKeyByHash ''h:atla_bob'')) (UpdateKeyLastUsed ''k1''))
        \<lparr>api_keys := [bob_key\<lparr>ak_last_used_at := Some (now deps0)\<rparr>]\<rparr>)"
    by (simp add: updateApiKeyLastUsed_def update_key_last_used_def record_call_def
        store0_def no_fault_def bob_key_def)
  have kr: "ak_id (kr_row (key_record_of (bob_key, Some bob))) = ''k1''"
    "ak_user_id (kr_row (key_record_of (bob_key, Some bob))) = ''u2''"
    "kr_username (key_record_of (bob_key, Some bob)) = Some ''bob''"
    "kr_email (key_record_of (bob_key, Some bob)) = Some ''bob@example.org''"
    "kr_role (key_record_of (bob_key, Some bob)) = Some ''viewer''"
    by (simp_all add: key_record_of_def bob_key_def bob_def)
  have e: "apikey_branch deps0 store0 ?two ''atla_bob'' =
     (Next,
      ?two\<lparr>user := Some \<lparr>u_id = ''u2'', u_username = Some ''bob'',
                           u_email = Some ''bob@example.org'',
                           u_role = Some ''viewer'', u_created_at = None\<rparr>,
            authType := Some ''apikey''\<rparr>,
      (record_call (record_call store0 (SelectKeyByHash ''h:atla_bob'')) (UpdateKeyLastUsed ''k1''))
        \<lparr>api_keys := [bob_key\<lparr>ak_last_used_at := Some (now deps0)\<rparr>]\<rparr>)"
    by (simp add: apikey_branch_def sha g kr up)
  have cs: "calls ((record_call (record_call store0 (SelectKeyByHash ''h:atla_bob''))
                     (UpdateKeyLastUsed ''k1''))
              \<lparr>api_keys := [bob_key\<lparr>ak_last_used_at := Some (now deps0)\<rparr>]\<rparr>) =
            [SelectKeyByHash ''h:atla_bob'', UpdateKeyLastUsed ''k1'']"
    by (simp add: record_call_def store0_def)
  show ?thesis
    unfolding k e using 1 2 cs by simp
qed

section \<open>Optional authentication\<close>

text \<open>
  C6. \<^verbatim>\<open>optionalAuth\<close> always calls \<^verbatim>\<open>next()\<close> and never sends a response; it sends
  the store no key-hash lookup and its result does not depend on the X-API-Key
  header. With no token, with a token that fails verification, with a verified
  token whose user the store does not find, and with a store error, the request is
  passed on as it came: no principal is attached.
\<close>

theorem optionalAuth_never_rejects:
  "fst (optionalAuth D s req) = Next \<and>
   (\<forall>h. SelectKeyByHash h \<notin> set (calls s) \<longrightarrow>
        SelectKeyByHash h \<notin> set (calls (snd (snd (optionalAuth D s req))))) \<and>
   api_keys (snd (snd (optionalAuth D s req))) = api_keys s \<and>
   (\<forall>k. optionalAuth D s (req\<lparr>headers_x_api_key := k\<rparr>) =
        (case optionalAuth D s req of
           (out, r, s') \<Rightarrow> (out, r\<lparr>headers_x_api_key := k\<rparr>, s'))) \<and>
   (\<not> truthy (bearer_token (headers_authorization req)) \<longrightarrow>
        optionalAuth D s req = (Next, req, s)) \<and>
   (\<forall>t e. bearer_token (headers_authorization req) = Some t \<longrightarrow> jwt_verify D t = Inl e \<longrightarrow>
        optionalAuth D s req = (Next, req, s)) \<and>
   (\<forall>t c. bearer_token (headers_authorization req) = Some t \<longrightarrow> jwt_verify D t = Inr c \<longrightarrow>
        fst (getUserById s (userId c)) = Inr None \<longrightarrow>
        fst (snd (optionalAuth D s req)) = req) \<and>
   (\<forall>t c e. bearer_token (headers_authorization req) = Some t \<longrightarrow> jwt_verify D t = Inr c \<longrightarrow>
        fst (getUserById s (userId c)) = Inl e \<longrightarrow>
        fst (snd (optionalAuth D s req)) = req)"
proof -
  have 1: "fst (optionalAuth D s req) = Next"
    by (simp add: optionalAuth_def optional_jwt_branch_next split: option.splits)
  have st: "snd (snd (optionalAuth D s req)) = s \<or>
        (\<exists>i. snd (snd (optionalAuth D s req)) = record_call s (SelectProfileById i))"
  proof (cases "bearer_token (headers_authorization req)")
    case None
    then show ?thesis by (simp add: optionalAuth_def)
  next
    case (Some t)
    then show ?thesis
      using optional_jwt_branch_store [of D s req t] by (simp add: optionalAuth_def)
  qed
  then have 2: "\<forall>h. SelectKeyByHash h \<notin> set (calls s) \<longrightarrow>
        SelectKeyByHash h \<notin> set (calls (snd (snd (optionalAuth D s req))))"
    by (auto simp: record_call_def)
  from st have 3: "api_keys (snd (snd (optionalAuth D s req))) = api_keys s"
    by (auto simp: record_call_def)
  have 4: "\<forall>k. optionalAuth D s (req\<lparr>headers_x_api_key := k\<rparr>) =
        (case optionalAuth D s req of
           (out, r, s') \<Rightarrow> (out, r\<lparr>headers_x_api_key := k\<rparr>, s'))"
    by (simp add: optionalAuth_def optional_jwt_branch_header split: option.splits)
  have 5: "\<not> truthy (bearer_token (headers_authorization req)) \<longrightarrow>
        optionalAuth D s req = (Next, req, s)"
    by (simp add: optionalAuth_def truthy_def split: option.splits)
  have 6: "\<forall>t e. bearer_token (headers_authorization req) = Some t \<longrightarrow> jwt_verify D t = Inl e \<longrightarrow>
        optionalAuth D s req = (Next, req, s)"
    by (auto simp: optionalAuth_def optional_jwt_branch_def)
  have 7: "\<forall>t c. bearer_token (headers_authorization req) = Some t \<longrightarrow> jwt_verify D t = Inr c \<longrightarrow>
        fst (getUserById s (userId c)) = Inr None \<longrightarrow>
        fst (snd (optionalAuth D s req)) = req"
    by (auto simp: optionalAuth_def optional_jwt_branch_def split: prod.splits)
  have 8: "\<forall>t c e. bearer_token (headers_authorization req) = Some t \<longrightarrow> jwt_verify D t = Inr c \<longrightarrow>
        fst (getUserById s (userId c)) = Inl e \<longrightarrow>
        fst (snd (optionalAuth D s req)) = req"
    by (auto simp: optionalAuth_def optional_jwt_branch_def split: prod.splits)
  from 1 2 3 4 5 6 7 8 show ?thesis by blast
qed

theorem optionalAuth_never_rejects_witness:
  "optionalAuth deps0 store0
     (req0\<lparr>headers_authorization := Some ''Bearer forged'',
            headers_x_api_key := Some ''atla_bob''\<rparr>) =
     (Next, req0\<lparr>headers_authorization := Some ''Bearer forged'',
                  headers_x_api_key := Some ''atla_bob''\<rparr>, store0) \<and>
   optionalAuth deps0 store0 (req0\<lparr>headers_x_api_key := Some ''atla_bob''\<rparr>) =
     (Next, req0\<lparr>headers_x_api_key := Some ''atla_bob''\<rparr>, store0) \<and>
   fst (snd (optionalAuth deps0 store0 (req0\<lparr>headers_authorization := Some ''Bearer ghost-token''\<rparr>)))
     = req0\<lparr>headers_authorization := Some ''Bearer ghost-token''\<rparr> \<and>
   fst (snd (optionalAuth deps0 store_profiles_down
               (req0\<lparr>headers_authorization := Some ''Bearer alice-token''\<rparr>)))
     = req0\<lparr>headers_authorization := Some ''Bearer alice-token''\<rparr> \<and>
   user (req0\<lparr>headers_authorization := Some ''Bearer alice-token''\<rparr>) = None"
proof -
  let ?forged = "req0\<lparr>headers_authorization := Some ''Bearer forged'',
                       headers_x_api_key := Some ''atla_bob''\<rparr>"
  let ?key = "req0\<lparr>headers_x_api_key := Some ''atla_bob''\<rparr>"
  let ?ghost = "req0\<lparr>headers_authorization := Some ''Bearer ghost-token''\<rparr>"
  let ?alice = "req0\<lparr>headers_authorization := Some ''Bearer alice-token''\<rparr>"
  have a1: "bearer_token (headers_authorization ?forged) = Some ''forged''"
    by (simp add: req0_def bearer_token_space after_first_space_def)
  have a2: "jwt_verify deps0 ''forged'' = Inl JsonWebTokenError"
    by (simp add: deps0_def verify0_def)
  have b1: "\<not> truthy (bearer_token (headers_authorization ?key))"
    by (simp add: req0_def bearer_token_def truthy_def)
  have c1: "bearer_token (headers_authorization ?ghost) = Some ''ghost-token''"
    by (simp add: req0_def bearer_token_space after_first_space_def)
  have c2: "jwt_verify deps0 ''ghost-token'' =
              Inr \<lparr>userId = ''u9'', username = ''ghost'', role = ''viewer''\<rparr>"
    by (simp add: deps0_def verify0_def)
  have c3: "fst (getUserById store0
              (userId \<lparr>userId = ''u9'', username = ''ghost'', role = ''viewer''\<rparr>)) = Inr None"
    by (simp add: getUserById_def select_profile_by_id_def single_def store0_def no_fault_def
        alice_def bob_def)
  have d1: "bearer_token (headers_authorization ?alice) = Some ''alice-token''"
    by (simp add: req0_def bearer_token_space after_first_space_def)
  have d2: "jwt_verify deps0 ''alice-token'' =
              Inr \<lparr>userId = ''u1'', username = ''alice'', role = ''admin''\<rparr>"
    by (simp add: deps0_def verify0_def)
  have d3: "fst (getUserById store_profiles_down
              (userId \<lparr>userId = ''u1'', username = ''alice'', role = ''admin''\<rparr>)) = Inl unreachable"
    by (simp add: getUserById_def select_profile_by_id_def store_profiles_down_def store0_def
        unreachable_def)
  have e: "user ?alice = None" by (simp add: req0_def)
  from optionalAuth_never_rejects [of deps0 store0 ?forged] a1 a2
  have 1: "optionalAuth deps0 store0 ?forged = (Next, ?forged, store0)" by blast
  from optionalAuth_never_rejects [of deps0 store0 ?key] b1
  have 2: "optionalAuth deps0 store0 ?key = (Next, ?key, store0)" by blast
  from optionalAuth_never_rejects [of deps0 store0 ?ghost] c1 c2 c3
  have 3: "fst (snd (optionalAuth deps0 store0 ?ghost)) = ?ghost" by blast
  from optionalAuth_never_rejects [of deps0 store_profiles_down ?alice] d1 d2 d3
  have 4: "fst (snd (optionalAuth deps0 store_profiles_down ?alice)) = ?alice" by blast
  from 1 2 3 4 e show ?thesis by blast
qed

section \<open>Auth Gate: status codes\<close>

lemma apikey_branch_unknown:
  "fault s (SelectKeyByHash (sha256_hex D k)) = None \<Longrightarrow>
   filter (\<lambda>r. ak_key_hash r = sha256_hex D k) (api_keys s) = [] \<Longrightarrow>
   fst (apikey_branch D s req k) = Respond \<lparr>status = 401, body = error_body ''Invalid API key''\<rparr>"
  by (simp add: apikey_branch_def getApiKeyByHash_absent)

lemma apikey_branch_lookup_fault:
  "fault s (SelectKeyByHash (sha256_hex D k)) = Some e \<Longrightarrow> err_code e \<noteq> ''PGRST116'' \<Longrightarrow>
   fst (apikey_branch D s req k) =
     Respond \<lparr>status = 500, body = error_body ''Internal server error during authentication''\<rparr>"
  by (simp add: apikey_branch_def getApiKeyByHash_fault)

lemma jwt_branch_verify_fails:
  "jwt_verify D t = Inl e \<Longrightarrow>
   jwt_branch D s req t =
     (Respond \<lparr>status = 403, body = error_body ''Invalid or expired token''\<rparr>, req, s)"
  by (simp add: jwt_branch_def)

lemma jwt_branch_user_missing:
  "jwt_verify D t = Inr c \<Longrightarrow> fault s (SelectProfileById (userId c)) = None \<Longrightarrow>
   filter (\<lambda>p. pr_id p = userId c) (profiles s) = [] \<Longrightarrow>
   fst (jwt_branch D s req t) =
     Respond \<lparr>status = 401, body = error_body ''Invalid token: user not found''\<rparr>"
  by (simp add: jwt_branch_def getUserById_absent)

text \<open>
  C1 (as the code has it). For a request that arrives with no principal attached,
  \<^verbatim>\<open>authenticateToken\<close> answers 401 when no credential is present, when the token
  verifies but the store has no profile for its \<^verbatim>\<open>userId\<close>, and when the store knows no
  key with the hash of the API key; it answers 403 when the token fails verification;
  it answers 500 when the key lookup of the API-key path fails in the store. The
  role guard answers 403 for a principal whose role is not allowed and 401 when no
  principal is attached.
\<close>

theorem auth_gate_status_codes:
  assumes "user req = None"
  shows
  "(\<not> truthy (bearer_token (headers_authorization req)) \<longrightarrow>
    \<not> truthy (headers_x_api_key req) \<longrightarrow>
      fst (authenticateToken D s req) =
        Respond \<lparr>status = 401, body = error_body ''Authentication required''\<rparr>) \<and>
   (\<forall>t c. bearer_token (headers_authorization req) = Some t \<longrightarrow> t \<noteq> [] \<longrightarrow>
      jwt_verify D t = Inr c \<longrightarrow> fault s (SelectProfileById (userId c)) = None \<longrightarrow>
      filter (\<lambda>p. pr_id p = userId c) (profiles s) = [] \<longrightarrow>
      fst (authenticateToken D s req) =
        Respond \<lparr>status = 401, body = error_body ''Invalid token: user not found''\<rparr>) \<and>
   (\<forall>k. \<not> truthy (bearer_token (headers_authorization req)) \<longrightarrow>
      headers_x_api_key req = Some k \<longrightarrow> k \<noteq> [] \<longrightarrow>
      fault s (SelectKeyByHash (sha256_hex D k)) = None \<longrightarrow>
      filter (\<lambda>r. ak_key_hash r = sha256_hex D k) (api_keys s) = [] \<longrightarrow>
      fst (authenticateToken D s req) =
        Respond \<lparr>status = 401, body = error_body ''Invalid API key''\<rparr>) \<and>
   (\<forall>t e. bearer_token (headers_authorization req) = Some t \<longrightarrow> t \<noteq> [] \<longrightarrow>
      jwt_verify D t = Inl e \<longrightarrow>
      fst (authenticateToken D s req) =
        Respond \<lparr>status = 403, body = error_body ''Invalid or expired token''\<rparr>) \<and>
   (\<forall>k e. \<not> truthy (bearer_token (headers_authorization req)) \<longrightarrow>
      headers_x_api_key req = Some k \<longrightarrow> k \<noteq> [] \<longrightarrow>
      fault s (SelectKeyByHash (sha256_hex D k)) = Some e \<longrightarrow> err_code e \<noteq> ''PGRST116'' \<longrightarrow>
      fst (authenticateToken D s req) =
        Respond \<lparr>status = 500,
                 body = error_body ''Internal server error during authentication''\<rparr>) \<and>
   (\<forall>allowedRoles r u. user r = Some u \<longrightarrow> \<not> includes_role allowedRoles (u_role u) \<longrightarrow>
      outcome_status (requireRole allowedRoles r) = Some 403) \<and>
   (\<forall>allowedRoles r. user r = None \<longrightarrow>
      outcome_status (requireRole allowedRoles r) = Some 401)"
proof -
  note tok = authenticateToken_token [OF assms]
  note notok = authenticateToken_no_token [OF assms]
  have 1: "\<not> truthy (bearer_token (headers_authorization req)) \<longrightarrow>
    \<not> truthy (headers_x_api_key req) \<longrightarrow>
      fst (authenticateToken D s req) =
        Respond \<lparr>status = 401, body = error_body ''Authentication required''\<rparr>"
    by (simp add: notok after_token_no_key)
  have 2: "\<forall>t c. bearer_token (headers_authorization req) = Some t \<longrightarrow> t \<noteq> [] \<longrightarrow>
      jwt_verify D t = Inr c \<longrightarrow> fault s (SelectProfileById (userId c)) = None \<longrightarrow>
      filter (\<lambda>p. pr_id p = userId c) (profiles s) = [] \<longrightarrow>
      fst (authenticateToken D s req) =
        Respond \<lparr>status = 401, body = error_body ''Invalid token: user not found''\<rparr>"
    by (simp add: tok jwt_branch_user_missing)
  have 3: "\<forall>k. \<not> truthy (bearer_token (headers_authorization req)) \<longrightarrow>
      headers_x_api_key req = Some k \<longrightarrow> k \<noteq> [] \<longrightarrow>
      fault s (SelectKeyByHash (sha256_hex D k)) = None \<longrightarrow>
      filter (\<lambda>r. ak_key_hash r = sha256_hex D k) (api_keys s) = [] \<longrightarrow>
      fst (authenticateToken D s req) =
        Respond \<lparr>status = 401, body = error_body ''Invalid API key''\<rparr>"
    by (simp add: notok after_token_key apikey_branch_unknown)
  have 4: "\<forall>t e. bearer_token (headers_authorization req) = Some t \<longrightarrow> t \<noteq> [] \<longrightarrow>
      jwt_verify D t = Inl e \<longrightarrow>
      fst (authenticateToken D s req) =
        Respond \<lparr>status = 403, body = error_body ''Invalid or expired token''\<rparr>"
    by (simp add: tok jwt_branch_verify_fails)
  have 5: "\<forall>k e. \<not> truthy (bearer_token (headers_authorization req)) \<longrightarrow>
      headers_x_api_key req = Some k \<longrightarrow> k \<noteq> [] \<longrightarrow>
      fault s (SelectKeyByHash (sha256_hex D k)) = Some e \<longrightarrow> err_code e \<noteq> ''PGRST116'' \<longrightarrow>
      fst (authenticateToken D s req) =
        Respond \<lparr>status = 500,
                 body = error_body ''Internal server error during authentication''\<rparr>"
    by (simp add: notok after_token_key apikey_branch_lookup_fault)
  have 6: "\<forall>allowedRoles r u. user r = Some u \<longrightarrow> \<not> includes_role allowedRoles (u_role u) \<longrightarrow>
      outcome_status (requireRole allowedRoles r) = Some 403"
    by (simp add: requireRole_def outcome_status_def)
  have 7: "\<forall>allowedRoles r. user r = None \<longrightarrow>
      outcome_status (requireRole allowedRoles r) = Some 401"
    by (simp add: requireRole_def outcome_status_def)
  from 1 2 3 4 5 6 7 show ?thesis by blast
qed

theorem auth_gate_status_codes_witness:
  "fst (authenticateToken deps0 store0 req0) =
     Respond \<lparr>status = 401, body = error_body ''Authentication required''\<rparr> \<and>
   fst (authenticateToken deps0 store0 (req0\<lparr>headers_authorization := Some ''Bearer ghost-token''\<rparr>)) =
     Respond \<lparr>status = 401, body = error_body ''Invalid token: user not found''\<rparr> \<and>
   fst (authenticateToken deps0 store0 (req0\<lparr>headers_x_api_key := Some ''guess''\<rparr>)) =
     Respond \<lparr>status = 401, body = error_body ''Invalid API key''\<rparr> \<and>
   fst (authenticateToken deps0 store0 (req0\<lparr>headers_authorization := Some ''Bearer old-token''\<rparr>)) =
     Respond \<lparr>status = 403, body = error_body ''Invalid or expired token''\<rparr> \<and>
   fst (authenticateToken deps0 store_keys_down (req0\<lparr>headers_x_api_key := Some ''atla_bob''\<rparr>)) =
     Respond \<lparr>status = 500, body = error_body ''Internal server error during authentication''\<rparr> \<and>
   outcome_status (requireRole [''admin''] (req0\<lparr>user := Some (principal_of_profile bob)\<rparr>)) =
     Some 403 \<and>
   outcome_status (requireRole [''admin''] req0) = Some 401"
proof -
  let ?ghost = "req0\<lparr>headers_authorization := Some ''Bearer ghost-token''\<rparr>"
  let ?guess = "req0\<lparr>headers_x_api_key := Some ''guess''\<rparr>"
  let ?old = "req0\<lparr>headers_authorization := Some ''Bearer old-token''\<rparr>"
  let ?key = "req0\<lparr>headers_x_api_key := Some ''atla_bob''\<rparr>"
  let ?bob = "req0\<lparr>user := Some (principal_of_profile bob)\<rparr>"
  have u: "user req0 = None" "user ?ghost = None" "user ?guess = None" "user ?old = None"
    "user ?key = None"
    by (simp_all add: req0_def)
  have a: "\<not> truthy (bearer_token (headers_authorization req0))"
    "\<not> truthy (headers_x_api_key req0)"
    by (simp_all add: req0_def bearer_token_def truthy_def)
  have b: "bearer_token (headers_authorization ?ghost) = Some ''ghost-token''" "''ghost-token'' \<noteq> []"
    "jwt_verify deps0 ''ghost-token'' = Inr \<lparr>userId = ''u9'', username = ''ghost'', role = ''viewer''\<rparr>"
    "fault store0 (SelectProfileById
       (userId \<lparr>userId = ''u9'', username = ''ghost'', role = ''viewer''\<rparr>)) = None"
    "filter (\<lambda>p. pr_id p = userId \<lparr>userId = ''u9'', username = ''ghost'', role = ''viewer''\<rparr>)
       (profiles store0) = []"
    by (simp_all add: req0_def bearer_token_space after_first_space_def deps0_def verify0_def store0_def
        no_fault_def alice_def bob_def)
  have c: "\<not> truthy (bearer_token (headers_authorization ?guess))"
    "headers_x_api_key ?guess = Some ''guess''" "''guess'' \<noteq> []"
    "fault store0 (SelectKeyByHash (sha256_hex deps0 ''guess'')) = None"
    "filter (\<lambda>r. ak_key_hash r = sha256_hex deps0 ''guess'') (api_keys store0) = []"
    by (simp_all add: req0_def bearer_token_def truthy_def deps0_def store0_def no_fault_def
        bob_key_def)
  have d: "bearer_token (headers_authorization ?old) = Some ''old-token''" "''old-token'' \<noteq> []"
    "jwt_verify deps0 ''old-token'' = Inl TokenExpiredError"
    by (simp_all add: req0_def bearer_token_space after_first_space_def deps0_def verify0_def)
  have e: "\<not> truthy (bearer_token (headers_authorization ?key))"
    "headers_x_api_key ?key = Some ''atla_bob''" "''atla_bob'' \<noteq> []"
    "fault store_keys_down (SelectKeyByHash (sha256_hex deps0 ''atla_bob'')) = Some unreachable"
    "err_code unreachable \<noteq> ''PGRST116''"
    by (simp_all add: req0_def bearer_token_def truthy_def deps0_def store_keys_down_def
        store0_def unreachable_def)
  have f: "user ?bob = Some (principal_of_profile bob)"
    "\<not> includes_role [''admin''] (u_role (principal_of_profile bob))"
    by (simp_all add: req0_def principal_of_profile_def bob_def includes_role_def)
  from auth_gate_status_codes [OF u(1), of deps0 store0] a
  have 1: "fst (authenticateToken deps0 store0 req0) =
     Respond \<lparr>status = 401, body = error_body ''Authentication required''\<rparr>" by blast
  from auth_gate_status_codes [OF u(2), of deps0 store0] b
  have 2: "fst (authenticateToken deps0 store0 ?ghost) =
     Respond \<lparr>status = 401, body = error_body ''Invalid token: user not found''\<rparr>" by blast
  from auth_gate_status_codes [OF u(3), of deps0 store0] c
  have 3: "fst (authenticateToken deps0 store0 ?guess) =
     Respond \<lparr>status = 401, body = error_body ''Invalid API key''\<rparr>" by blast
  from auth_gate_status_codes [OF u(4), of deps0 store0] d
  have 4: "fst (authenticateToken deps0 store0 ?old) =
     Respond \<lparr>status = 403, body = error_body ''Invalid or expired token''\<rparr>" by blast
  from auth_gate_status_codes [OF u(5), of deps0 store_keys_down] e
  have 5: "fst (authenticateToken deps0 store_keys_down ?key) =
     Respond \<lparr>status = 500, body = error_body ''Internal server error during authentication''\<rparr>"
    by blast
  from auth_gate_status_codes [OF u(1), of deps0 store0] f
  have 6: "outcome_status (requireRole [''admin''] ?bob) = Some 403" by blast
  from auth_gate_status_codes [OF u(1), of deps0 store0] u(1)
  have 7: "outcome_status (requireRole [''admin''] req0) = Some 401" by blast
  from 1 2 3 4 5 6 7 show ?thesis by blast
qed

theorem invalid_token_status_counterexample:
  "jwt_verify deps0 ''forged'' = Inl JsonWebTokenError \<and>
   outcome_status (fst (authenticateToken deps0 store0
      (req0\<lparr>headers_authorization := Some ''Bearer forged''\<rparr>))) = Some 403 \<and>
   outcome_status (fst (authenticateToken deps0 store0
      (req0\<lparr>headers_authorization := Some ''Bearer forged''\<rparr>))) \<noteq> Some 401"
  by (simp add: authenticateToken_def req0_def bearer_token_space after_first_space_def jwt_branch_def
      deps0_def verify0_def outcome_status_def)

section \<open>Auth Gate: the last-used update\<close>

lemma updateApiKeyLastUsed_fault:
  "fault s (UpdateKeyLastUsed i) = Some e \<Longrightarrow>
   updateApiKeyLastUsed s n i = (Inl e, record_call s (UpdateKeyLastUsed i))"
  by (simp add: updateApiKeyLastUsed_def update_key_last_used_def)

lemma updateApiKeyLastUsed_ok:
  "fault s (UpdateKeyLastUsed i) = None \<Longrightarrow>
   fst (updateApiKeyLastUsed s n i) = Inr ()"
  by (simp add: updateApiKeyLastUsed_def update_key_last_used_def)

lemma fault_record_call: "fault (record_call s c) = fault s"
  by (simp add: record_call_def)

lemma api_keys_record_call: "api_keys (record_call s c) = api_keys s"
  by (simp add: record_call_def)

lemma apikey_branch_touch_fails:
  assumes "fault s (SelectKeyByHash (sha256_hex D k)) = None"
    and "filter (\<lambda>r. ak_key_hash r = sha256_hex D k) (api_keys s) = [row]"
    and "fault s (UpdateKeyLastUsed (ak_id row)) = Some e"
  shows "fst (apikey_branch D s req k) =
           Respond \<lparr>status = 500,
                    body = error_body ''Internal server error during authentication''\<rparr>"
    and "api_keys (snd (snd (apikey_branch D s req k))) = api_keys s"
    and "\<exists>u. user (fst (snd (apikey_branch D s req k))) = Some u \<and> u_id u = ak_user_id row"
  using assms
  by (simp_all add: apikey_branch_def getApiKeyByHash_row key_record_of_def
      updateApiKeyLastUsed_fault fault_record_call api_keys_record_call)

lemma apikey_branch_touch_ok:
  assumes "fault s (SelectKeyByHash (sha256_hex D k)) = None"
    and "filter (\<lambda>r. ak_key_hash r = sha256_hex D k) (api_keys s) = [row]"
    and "fault s (UpdateKeyLastUsed (ak_id row)) = None"
  shows "fst (apikey_branch D s req k) = Next"
    and "\<exists>u. user (fst (snd (apikey_branch D s req k))) = Some u \<and> u_id u = ak_user_id row"
    and "authType (fst (snd (apikey_branch D s req k))) = Some ''apikey''"
proof -
  let ?s1 = "record_call s (SelectKeyByHash (sha256_hex D k))"
  have "fault ?s1 (UpdateKeyLastUsed (ak_id row)) = None"
    using assms(3) by (simp add: fault_record_call)
  then have ok: "fst (updateApiKeyLastUsed ?s1 (now D) (ak_id row)) = Inr ()"
    by (rule updateApiKeyLastUsed_ok)
  obtain s2 where s2: "updateApiKeyLastUsed ?s1 (now D) (ak_id row) = (Inr (), s2)"
    using ok by (cases "updateApiKeyLastUsed ?s1 (now D) (ak_id row)") simp
  show "fst (apikey_branch D s req k) = Next"
    and "\<exists>u. user (fst (snd (apikey_branch D s req k))) = Some u \<and> u_id u = ak_user_id row"
    and "authType (fst (snd (apikey_branch D s req k))) = Some ''apikey''"
    using assms(1,2) s2
    by (simp_all add: apikey_branch_def getApiKeyByHash_row key_record_of_def)
qed

text \<open>
  C2 (as the code has it). On the API-key path, once the key record is found and the
  principal is built, the \<^verbatim>\<open>last_used_at\<close> update is awaited inside the \<^verbatim>\<open>try\<close>:
  when it fails the gate answers 500 ``Internal server error during
  authentication'' and does not call \<^verbatim>\<open>next()\<close>; when it succeeds the gate calls
  \<^verbatim>\<open>next()\<close> with the key owner as principal.
\<close>

theorem apikey_touch_failure_rejects:
  assumes "user req = None"
    and "\<not> truthy (bearer_token (headers_authorization req))"
    and "headers_x_api_key req = Some k" and "k \<noteq> []"
    and "fault s (SelectKeyByHash (sha256_hex D k)) = None"
    and "filter (\<lambda>r. ak_key_hash r = sha256_hex D k) (api_keys s) = [row]"
  shows
  "(\<forall>e. fault s (UpdateKeyLastUsed (ak_id row)) = Some e \<longrightarrow>
      fst (authenticateToken D s req) =
        Respond \<lparr>status = 500,
                 body = error_body ''Internal server error during authentication''\<rparr> \<and>
      api_keys (snd (snd (authenticateToken D s req))) = api_keys s) \<and>
   (fault s (UpdateKeyLastUsed (ak_id row)) = None \<longrightarrow>
      fst (authenticateToken D s req) = Next \<and>
      (\<exists>u. user (fst (snd (authenticateToken D s req))) = Some u \<and> u_id u = ak_user_id row))"
proof -
  have eq: "authenticateToken D s req = apikey_branch D s req k"
    using assms(1-4) by (simp add: authenticateToken_no_token after_token_key)
  show ?thesis
    unfolding eq
    using apikey_branch_touch_fails(1,2) [OF assms(5,6), of _ req]
      apikey_branch_touch_ok(1,2) [OF assms(5,6), of req]
    by blast
qed

theorem apikey_touch_failure_rejects_witness:
  "fst (authenticateToken deps0 store_touch_down (req0\<lparr>headers_x_api_key := Some ''atla_bob''\<rparr>)) =
     Respond \<lparr>status = 500, body = error_body ''Internal server error during authentication''\<rparr> \<and>
   fst (authenticateToken deps0 store0 (req0\<lparr>headers_x_api_key := Some ''atla_bob''\<rparr>)) = Next"
proof -
  let ?key = "req0\<lparr>headers_x_api_key := Some ''atla_bob''\<rparr>"
  have a: "user ?key = None" "\<not> truthy (bearer_token (headers_authorization ?key))"
    "headers_x_api_key ?key = Some ''atla_bob''" "''atla_bob'' \<noteq> []"
    by (simp_all add: req0_def bearer_token_def truthy_def)
  have b: "fault store_touch_down (SelectKeyByHash (sha256_hex deps0 ''atla_bob'')) = None"
    "filter (\<lambda>r. ak_key_hash r = sha256_hex deps0 ''atla_bob'') (api_keys store_touch_down)
       = [bob_key]"
    "fault store_touch_down (UpdateKeyLastUsed (ak_id bob_key)) = Some unreachable"
    by (simp_all add: store_touch_down_def store0_def deps0_def bob_key_def)
  have c: "fault store0 (SelectKeyByHash (sha256_hex deps0 ''atla_bob'')) = None"
    "filter (\<lambda>r. ak_key_hash r = sha256_hex deps0 ''atla_bob'') (api_keys store0) = [bob_key]"
    "fault store0 (UpdateKeyLastUsed (ak_id bob_key)) = None"
    by (simp_all add: store0_def no_fault_def deps0_def bob_key_def)
  from apikey_touch_failure_rejects [OF a b(1,2)] b(3)
  have 1: "fst (authenticateToken deps0 store_touch_down ?key) =
     Respond \<lparr>status = 500, body = error_body ''Internal server error during authentication''\<rparr>"
    by blast
  from apikey_touch_failure_rejects [OF a c(1,2)] c(3)
  have 2: "fst (authenticateToken deps0 store0 ?key) = Next" by blast
  from 1 2 show ?thesis by blast
qed

theorem apikey_touch_best_effort_counterexample:
  "fst (getApiKeyByHash store_touch_down (sha256_hex deps0 ''atla_bob'')) =
     Inr (Some (key_record_of (bob_key, Some bob))) \<and>
   fst (updateApiKeyLastUsed store_touch_down (now deps0) (ak_id bob_key)) = Inl unreachable \<and>
   fst (authenticateToken deps0 store_touch_down (req0\<lparr>headers_x_api_key := Some ''atla_bob''\<rparr>)) =
     Respond \<lparr>status = 500, body = error_body ''Internal server error during authentication''\<rparr> \<and>
   fst (authenticateToken deps0 store_touch_down (req0\<lparr>headers_x_api_key := Some ''atla_bob''\<rparr>))
     \<noteq> Next"
proof -
  have f: "fault store_touch_down (SelectKeyByHash ''h:atla_bob'') = None"
    "filter (\<lambda>r. ak_key_hash r = ''h:atla_bob'') (api_keys store_touch_down) = [bob_key]"
    "fault store_touch_down (UpdateKeyLastUsed ''k1'') = Some unreachable"
    "find (\<lambda>p. pr_id p = ak_user_id bob_key) (profiles store_touch_down) = Some bob"
    by (simp_all add: store_touch_down_def store0_def bob_key_def alice_def bob_def)
  have h: "sha256_hex deps0 ''atla_bob'' = ''h:atla_bob''" "ak_id bob_key = ''k1''"
    by (simp_all add: deps0_def bob_key_def)
  have 1: "fst (getApiKeyByHash store_touch_down (sha256_hex deps0 ''atla_bob'')) =
     Inr (Some (key_record_of (bob_key, Some bob)))"
    using getApiKeyByHash_row [OF f(1,2)] f(4) by (simp add: h)
  have 2: "fst (updateApiKeyLastUsed store_touch_down (now deps0) (ak_id bob_key)) = Inl unreachable"
    using updateApiKeyLastUsed_fault [OF f(3)] by (simp add: h)
  have k: "authenticateToken deps0 store_touch_down (req0\<lparr>headers_x_api_key := Some ''atla_bob''\<rparr>)
     = apikey_branch deps0 store_touch_down (req0\<lparr>headers_x_api_key := Some ''atla_bob''\<rparr>) ''atla_bob''"
    by (simp add: authenticateToken_def after_token_def req0_def bearer_token_def)
  have 3: "fst (authenticateToken deps0 store_touch_down (req0\<lparr>headers_x_api_key := Some ''atla_bob''\<rparr>)) =
     Respond \<lparr>status = 500, body = error_body ''Internal server error during authentication''\<rparr>"
    unfolding k
    by (rule apikey_branch_touch_fails(1) [where row = bob_key and e = unreachable])
       (simp_all add: h f)
  from 1 2 3 show ?thesis by simp
qed

section \<open>Auth Gate: failed tokens and deleted users\<close>

text \<open>
  C3 (as the code has it). For a request with a non-empty token and no principal
  attached, a token that fails verification is answered with 403 and the body
  ``Invalid or expired token'', a token that verifies but whose user the store does
  not hold is answered with 401 and the body ``Invalid token: user not found'': the
  two responses differ in status and in body.
\<close>

theorem token_failure_responses_differ:
  assumes "user req = None"
    and "bearer_token (headers_authorization req) = Some t" and "t \<noteq> []"
  shows
  "(\<forall>e. jwt_verify D t = Inl e \<longrightarrow>
      fst (authenticateToken D s req) =
        Respond \<lparr>status = 403, body = error_body ''Invalid or expired token''\<rparr>) \<and>
   (\<forall>c. jwt_verify D t = Inr c \<longrightarrow> fault s (SelectProfileById (userId c)) = None \<longrightarrow>
      filter (\<lambda>p. pr_id p = userId c) (profiles s) = [] \<longrightarrow>
      fst (authenticateToken D s req) =
        Respond \<lparr>status = 401, body = error_body ''Invalid token: user not found''\<rparr>) \<and>
   (403::nat) \<noteq> 401 \<and>
   error_body ''Invalid or expired token'' \<noteq> error_body ''Invalid token: user not found''"
proof -
  have eq: "authenticateToken D s req = jwt_branch D s req t"
    using assms by (rule authenticateToken_token)
  show ?thesis
    unfolding eq
    by (simp add: jwt_branch_verify_fails jwt_branch_user_missing error_body_def)
qed

theorem token_failure_responses_differ_witness:
  "fst (authenticateToken deps0 store0 (req0\<lparr>headers_authorization := Some ''Bearer old-token''\<rparr>)) =
     Respond \<lparr>status = 403, body = error_body ''Invalid or expired token''\<rparr> \<and>
   fst (authenticateToken deps0 store0 (req0\<lparr>headers_authorization := Some ''Bearer ghost-token''\<rparr>)) =
     Respond \<lparr>status = 401, body = error_body ''Invalid token: user not found''\<rparr>"
proof -
  let ?old = "req0\<lparr>headers_authorization := Some ''Bearer old-token''\<rparr>"
  let ?ghost = "req0\<lparr>headers_authorization := Some ''Bearer ghost-token''\<rparr>"
  have a: "user ?old = None" "bearer_token (headers_authorization ?old) = Some ''old-token''"
    "''old-token'' \<noteq> []"
    by (simp_all add: req0_def bearer_token_space after_first_space_def)
  have a': "jwt_verify deps0 ''old-token'' = Inl TokenExpiredError"
    by (simp add: deps0_def verify0_def)
  have b: "user ?ghost = None" "bearer_token (headers_authorization ?ghost) = Some ''ghost-token''"
    "''ghost-token'' \<noteq> []"
    by (simp_all add: req0_def bearer_token_space after_first_space_def)
  have b': "jwt_verify deps0 ''ghost-token'' = Inr \<lparr>userId = ''u9'', username = ''ghost'', role = ''viewer''\<rparr>"
    "fault store0 (SelectProfileById
       (userId \<lparr>userId = ''u9'', username = ''ghost'', role = ''viewer''\<rparr>)) = None"
    "filter (\<lambda>p. pr_id p = userId \<lparr>userId = ''u9'', username = ''ghost'', role = ''viewer''\<rparr>)
       (profiles store0) = []"
    by (simp_all add: deps0_def verify0_def store0_def no_fault_def alice_def bob_def)
  from token_failure_responses_differ [OF a, of deps0 store0] a'
  have 1: "fst (authenticateToken deps0 store0 ?old) =
     Respond \<lparr>status = 403, body = error_body ''Invalid or expired token''\<rparr>" by blast
  from token_failure_responses_differ [OF b, of deps0 store0] b'
  have 2: "fst (authenticateToken deps0 store0 ?ghost) =
     Respond \<lparr>status = 401, body = error_body ''Invalid token: user not found''\<rparr>" by blast
  from 1 2 show ?thesis by blast
qed

theorem token_failure_same_response_counterexample:
  "jwt_verify deps0 ''forged'' = Inl JsonWebTokenError \<and>
   jwt_verify deps0 ''ghost-token'' = Inr \<lparr>userId = ''u9'', username = ''ghost'', role = ''viewer''\<rparr> \<and>
   fst (getUserById store0 ''u9'') = Inr None \<and>
   fst (authenticateToken deps0 store0 (req0\<lparr>headers_authorization := Some ''Bearer forged''\<rparr>)) =
     Respond \<lparr>status = 403, body = error_body ''Invalid or expired token''\<rparr> \<and>
   fst (authenticateToken deps0 store0 (req0\<lparr>headers_authorization := Some ''Bearer ghost-token''\<rparr>)) =
     Respond \<lparr>status = 401, body = error_body ''Invalid token: user not found''\<rparr> \<and>
   fst (authenticateToken deps0 store0 (req0\<lparr>headers_authorization := Some ''Bearer forged''\<rparr>)) \<noteq>
   fst (authenticateToken deps0 store0 (req0\<lparr>headers_authorization := Some ''Bearer ghost-token''\<rparr>))"
proof -
  have v: "jwt_verify deps0 ''forged'' = Inl JsonWebTokenError"
    "jwt_verify deps0 ''ghost-token'' = Inr \<lparr>userId = ''u9'', username = ''ghost'', role = ''viewer''\<rparr>"
    by (simp_all add: deps0_def verify0_def)
  have g: "fault store0 (SelectProfileById ''u9'') = None"
    "filter (\<lambda>p. pr_id p = ''u9'') (profiles store0) = []"
    by (simp_all add: store0_def no_fault_def alice_def bob_def)
  have 1: "fst (getUserById store0 ''u9'') = Inr None"
    using getUserById_absent [OF g] by simp
  have k1: "authenticateToken deps0 store0 (req0\<lparr>headers_authorization := Some ''Bearer forged''\<rparr>)
      = jwt_branch deps0 store0 (req0\<lparr>headers_authorization := Some ''Bearer forged''\<rparr>) ''forged''"
    by (simp add: authenticateToken_def req0_def bearer_token_space after_first_space_def)
  have k2: "authenticateToken deps0 store0 (req0\<lparr>headers_authorization := Some ''Bearer ghost-token''\<rparr>)
      = jwt_branch deps0 store0 (req0\<lparr>headers_authorization := Some ''Bearer ghost-token''\<rparr>) ''ghost-token''"
    by (simp add: authenticateToken_def req0_def bearer_token_space after_first_space_def)
  have 2: "fst (authenticateToken deps0 store0 (req0\<lparr>headers_authorization := Some ''Bearer forged''\<rparr>)) =
     Respond \<lparr>status = 403, body = error_body ''Invalid or expired token''\<rparr>"
    unfolding k1 by (simp add: jwt_branch_verify_fails [OF v(1)])
  have 3: "fst (authenticateToken deps0 store0 (req0\<lparr>headers_authorization := Some ''Bearer ghost-token''\<rparr>)) =
     Respond \<lparr>status = 401, body = error_body ''Invalid token: user not found''\<rparr>"
    unfolding k2 by (rule jwt_branch_user_missing [OF v(2)]) (simp_all add: g)
  from v 1 2 3 show ?thesis by simp
qed

section \<open>Auth Gate: store failures\<close>

lemma jwt_branch_lookup_fault:
  "jwt_verify D t = Inr c \<Longrightarrow> fault s (SelectProfileById (userId c)) = Some e \<Longrightarrow>
   err_code e \<noteq> ''PGRST116'' \<Longrightarrow>
   fst (jwt_branch D s req t) =
     Respond \<lparr>status = 403, body = error_body ''Invalid or expired token''\<rparr>"
  by (simp add: jwt_branch_def getUserById_fault)

text \<open>
  C4. A store failure during the profile lookup of the bearer-token path is caught
  by the handler meant for verification failures: the answer is 403 ``Invalid or
  expired token'', where the same failure during the key lookup of the API-key
  path is answered with 500.
\<close>

theorem store_failure_on_token_path:
  "jwt_verify deps0 ''alice-token'' = Inr \<lparr>userId = ''u1'', username = ''alice'', role = ''admin''\<rparr> \<and>
   fst (getUserById store_profiles_down ''u1'') = Inl unreachable \<and>
   err_code unreachable \<noteq> ''PGRST116'' \<and>
   fst (authenticateToken deps0 store_profiles_down
          (req0\<lparr>headers_authorization := Some ''Bearer alice-token''\<rparr>)) =
     Respond \<lparr>status = 403, body = error_body ''Invalid or expired token''\<rparr> \<and>
   fst (getApiKeyByHash store_keys_down (sha256_hex deps0 ''atla_bob'')) = Inl unreachable \<and>
   fst (authenticateToken deps0 store_keys_down (req0\<lparr>headers_x_api_key := Some ''atla_bob''\<rparr>)) =
     Respond \<lparr>status = 500, body = error_body ''Internal server error during authentication''\<rparr>"
proof -
  have v: "jwt_verify deps0 ''alice-token'' =
             Inr \<lparr>userId = ''u1'', username = ''alice'', role = ''admin''\<rparr>"
    by (simp add: deps0_def verify0_def)
  have c: "err_code unreachable \<noteq> ''PGRST116''" by (simp add: unreachable_def)
  have f: "fault store_profiles_down (SelectProfileById ''u1'') = Some unreachable"
    by (simp add: store_profiles_down_def store0_def)
  have g: "getUserById store_profiles_down ''u1'' =
             (Inl unreachable, record_call store_profiles_down (SelectProfileById ''u1''))"
    by (rule getUserById_fault [OF f c])
  have k: "authenticateToken deps0 store_profiles_down
             (req0\<lparr>headers_authorization := Some ''Bearer alice-token''\<rparr>) =
           jwt_branch deps0 store_profiles_down
             (req0\<lparr>headers_authorization := Some ''Bearer alice-token''\<rparr>) ''alice-token''"
    by (simp add: authenticateToken_def req0_def bearer_token_space after_first_space_def)
  have 1: "fst (authenticateToken deps0 store_profiles_down
          (req0\<lparr>headers_authorization := Some ''Bearer alice-token''\<rparr>)) =
     Respond \<lparr>status = 403, body = error_body ''Invalid or expired token''\<rparr>"
    unfolding k by (rule jwt_branch_lookup_fault [OF v _ c]) (simp add: f)
  have h: "sha256_hex deps0 ''atla_bob'' = ''h:atla_bob''" by (simp add: deps0_def)
  have f2: "fault store_keys_down (SelectKeyByHash (sha256_hex deps0 ''atla_bob'')) = Some unreachable"
    by (simp add: store_keys_down_def store0_def h)
  have 2: "fst (getApiKeyByHash store_keys_down (sha256_hex deps0 ''atla_bob'')) = Inl unreachable"
    using getApiKeyByHash_fault [OF f2 c] by simp
  have k2: "authenticateToken deps0 store_keys_down (req0\<lparr>headers_x_api_key := Some ''atla_bob''\<rparr>)
     = apikey_branch deps0 store_keys_down (req0\<lparr>headers_x_api_key := Some ''atla_bob''\<rparr>) ''atla_bob''"
    by (simp add: authenticateToken_def after_token_def req0_def bearer_token_def)
  have 3: "fst (authenticateToken deps0 store_keys_down (req0\<lparr>headers_x_api_key := Some ''atla_bob''\<rparr>)) =
     Respond \<lparr>status = 500, body = error_body ''Internal server error during authentication''\<rparr>"
    unfolding k2 by (rule apikey_branch_lookup_fault [OF f2 c])
  from v g c 1 2 3 show ?thesis by simp
qed

section \<open>Auth Gate: the authentication type\<close>

lemma apikey_branch_next:
  "fst (apikey_branch D s req k) = Next \<Longrightarrow>
   authType (fst (snd (apikey_branch D s req k))) = Some ''apikey'' \<and>
   user (fst (snd (apikey_branch D s req k))) \<noteq> None"
  by (auto simp: apikey_branch_def Let_def split: prod.splits sum.splits option.splits)

lemma jwt_branch_next:
  "fst (jwt_branch D s req t) = Next \<Longrightarrow>
   authType (fst (snd (jwt_branch D s req t))) = Some ''jwt'' \<and>
   user (fst (snd (jwt_branch D s req t))) \<noteq> None"
  by (auto simp: jwt_branch_def split: prod.splits sum.splits option.splits)

text \<open>
  C9 (as the code has it). When \<^verbatim>\<open>authenticateToken\<close> resolves a credential itself (no
  principal was attached before) and calls \<^verbatim>\<open>next()\<close>, a principal is attached and the
  request (not the principal) carries \<^verbatim>\<open>authType\<close>, which is ``jwt'' when the
  principal came from a bearer token and ``apikey'' when it came from an API key.
\<close>

theorem authType_values:
  assumes "user req = None" and "fst (authenticateToken D s req) = Next"
  shows
  "(truthy (bearer_token (headers_authorization req)) \<longrightarrow>
      authType (fst (snd (authenticateToken D s req))) = Some ''jwt'') \<and>
   (\<not> truthy (bearer_token (headers_authorization req)) \<longrightarrow>
      authType (fst (snd (authenticateToken D s req))) = Some ''apikey'') \<and>
   user (fst (snd (authenticateToken D s req))) \<noteq> None"
proof (cases "truthy (bearer_token (headers_authorization req))")
  case True
  then obtain t where t: "bearer_token (headers_authorization req) = Some t" "t \<noteq> []"
    by (auto simp: truthy_def split: option.splits)
  have eq: "authenticateToken D s req = jwt_branch D s req t"
    using assms(1) t by (rule authenticateToken_token)
  from assms(2) have "fst (jwt_branch D s req t) = Next" by (simp add: eq)
  from jwt_branch_next [OF this] True show ?thesis by (simp add: eq)
next
  case False
  have eq: "authenticateToken D s req = after_token D s req"
    using assms(1) False by (rule authenticateToken_no_token)
  show ?thesis
  proof (cases "truthy (headers_x_api_key req)")
    case True
    then obtain k where k: "headers_x_api_key req = Some k" "k \<noteq> []"
      by (auto simp: truthy_def split: option.splits)
    have eq2: "authenticateToken D s req = apikey_branch D s req k"
      using eq k by (simp add: after_token_key)
    from assms(2) have "fst (apikey_branch D s req k) = Next" by (simp add: eq2)
    from apikey_branch_next [OF this] False show ?thesis by (simp add: eq2)
  next
    case nokey: False
    from assms(2) show ?thesis by (simp add: eq after_token_no_key [OF nokey])
  qed
qed

theorem authType_values_witness:
  "authType (fst (snd (authenticateToken deps0 store0
      (req0\<lparr>headers_authorization := Some ''Bearer alice-token''\<rparr>)))) = Some ''jwt'' \<and>
   authType (fst (snd (authenticateToken deps0 store0
      (req0\<lparr>headers_x_api_key := Some ''atla_bob''\<rparr>)))) = Some ''apikey''"
proof -
  let ?alice = "req0\<lparr>headers_authorization := Some ''Bearer alice-token''\<rparr>"
  let ?key = "req0\<lparr>headers_x_api_key := Some ''atla_bob''\<rparr>"
  have a: "user ?alice = None" by (simp add: req0_def)
  have at: "bearer_token (headers_authorization ?alice) = Some ''alice-token''"
    by (simp add: req0_def bearer_token_space after_first_space_def)
  have v: "jwt_verify deps0 ''alice-token'' =
             Inr \<lparr>userId = ''u1'', username = ''alice'', role = ''admin''\<rparr>"
    by (simp add: deps0_def verify0_def)
  have g: "getUserById store0 ''u1'' =
             (Inr (Some (principal_of_profile alice)), record_call store0 (SelectProfileById ''u1''))"
    by (rule getUserById_row) (simp_all add: store0_def no_fault_def alice_def bob_def)
  have an: "fst (authenticateToken deps0 store0 ?alice) = Next"
    by (simp add: authenticateToken_token [OF a at] jwt_branch_def v g)
  have atr: "truthy (bearer_token (headers_authorization ?alice))"
    using at by (simp add: truthy_def)
  have b: "user ?key = None" "\<not> truthy (bearer_token (headers_authorization ?key))"
    "headers_x_api_key ?key = Some ''atla_bob''" "''atla_bob'' \<noteq> []"
    by (simp_all add: req0_def bearer_token_def truthy_def)
  have c: "fault store0 (SelectKeyByHash (sha256_hex deps0 ''atla_bob'')) = None"
    "filter (\<lambda>r. ak_key_hash r = sha256_hex deps0 ''atla_bob'') (api_keys store0) = [bob_key]"
    "fault store0 (UpdateKeyLastUsed (ak_id bob_key)) = None"
    by (simp_all add: store0_def no_fault_def deps0_def bob_key_def)
  have bn: "fst (authenticateToken deps0 store0 ?key) = Next"
    by (simp add: authenticateToken_no_token [OF b(1,2)] after_token_key [OF b(3,4)]
        apikey_branch_touch_ok(1) [OF c])
  from authType_values [OF a an] atr
  have 1: "authType (fst (snd (authenticateToken deps0 store0 ?alice))) = Some ''jwt''" by blast
  from authType_values [OF b(1) bn] b(2)
  have 2: "authType (fst (snd (authenticateToken deps0 store0 ?key))) = Some ''apikey''" by blast
  from 1 2 show ?thesis by blast
qed

theorem authType_token_counterexample:
  "fst (authenticateToken deps0 store0
      (req0\<lparr>headers_authorization := Some ''Bearer alice-token''\<rparr>)) = Next \<and>
   authType (fst (snd (authenticateToken deps0 store0
      (req0\<lparr>headers_authorization := Some ''Bearer alice-token''\<rparr>)))) = Some ''jwt'' \<and>
   authType (fst (snd (authenticateToken deps0 store0
      (req0\<lparr>headers_authorization := Some ''Bearer alice-token''\<rparr>)))) \<noteq> Some ''token''"
proof -
  let ?alice = "req0\<lparr>headers_authorization := Some ''Bearer alice-token''\<rparr>"
  have a: "user ?alice = None" by (simp add: req0_def)
  have at: "bearer_token (headers_authorization ?alice) = Some ''alice-token''"
    by (simp add: req0_def bearer_token_space after_first_space_def)
  have v: "jwt_verify deps0 ''alice-token'' =
             Inr \<lparr>userId = ''u1'', username = ''alice'', role = ''admin''\<rparr>"
    by (simp add: deps0_def verify0_def)
  have g: "getUserById store0 ''u1'' =
             (Inr (Some (principal_of_profile alice)), record_call store0 (SelectProfileById ''u1''))"
    by (rule getUserById_row) (simp_all add: store0_def no_fault_def alice_def bob_def)
  show ?thesis
    by (simp add: authenticateToken_token [OF a at] jwt_branch_def v g)
qed

section \<open>Deleting an API key\<close>

lemma deleteApiKey_fault:
  "fault s (DeleteKey i uid) = Some e \<Longrightarrow>
   deleteApiKey s i uid = (Inl e, record_call s (DeleteKey i uid))"
  by (simp add: deleteApiKey_def delete_key_def)

lemma deleteApiKey_ok:
  "fault s (DeleteKey i uid) = None \<Longrightarrow>
   deleteApiKey s i uid =
     (Inr (length (filter (\<lambda>k. ak_id k = i \<and> ak_user_id k = uid) (api_keys s))),
      (record_call s (DeleteKey i uid))
        \<lparr>api_keys := filter (\<lambda>k. \<not> (ak_id k = i \<and> ak_user_id k = uid)) (api_keys s)\<rparr>)"
  by (simp add: deleteApiKey_def delete_key_def)

lemma filter_none:
  "\<not> (\<exists>k \<in> set xs. P k) \<Longrightarrow> filter P xs = [] \<and> filter (\<lambda>k. \<not> P k) xs = xs"
  by (induction xs) auto

lemma delete_key_handler_no_match:
  assumes "user req = Some u"
    and "\<not> (\<exists>k \<in> set (api_keys s). ak_id k = params_id req \<and> ak_user_id k = u_id u)"
  shows "api_keys (snd (delete_key_handler s req)) = api_keys s"
    and "fault s (DeleteKey (params_id req) (u_id u)) = None \<Longrightarrow>
         fst (delete_key_handler s req) =
           \<lparr>status = 404, body = error_body ''API key not found''\<rparr>"
proof -
  note fn = filter_none [OF assms(2)]
  show "api_keys (snd (delete_key_handler s req)) = api_keys s"
  proof (cases "fault s (DeleteKey (params_id req) (u_id u))")
    case None
    then show ?thesis
      using assms(1) fn by (simp add: delete_key_handler_def deleteApiKey_ok record_call_def)
  next
    case (Some e)
    then show ?thesis
      using assms(1) by (simp add: delete_key_handler_def deleteApiKey_fault record_call_def)
  qed
  show "fst (delete_key_handler s req) = \<lparr>status = 404, body = error_body ''API key not found''\<rparr>"
    if "fault s (DeleteKey (params_id req) (u_id u)) = None"
    using assms(1) fn that by (simp add: delete_key_handler_def deleteApiKey_ok)
qed

lemma delete_key_handler_status:
  "status (fst (delete_key_handler s req)) \<in> {200, 404, 500}"
  by (simp add: delete_key_handler_def split: option.splits prod.splits sum.splits)

lemma delete_key_handler_success:
  assumes "user req = Some u" and "status (fst (delete_key_handler s req)) = 200"
  shows "\<exists>k \<in> set (api_keys s). ak_id k = params_id req \<and> ak_user_id k = u_id u"
    and "api_keys (snd (delete_key_handler s req)) =
           filter (\<lambda>k. \<not> (ak_id k = params_id req \<and> ak_user_id k = u_id u)) (api_keys s)"
proof -
  have nf: "fault s (DeleteKey (params_id req) (u_id u)) = None"
  proof (cases "fault s (DeleteKey (params_id req) (u_id u))")
    case None
    then show ?thesis .
  next
    case (Some e)
    with assms show ?thesis by (simp add: delete_key_handler_def deleteApiKey_fault)
  qed
  have ne: "filter (\<lambda>k. ak_id k = params_id req \<and> ak_user_id k = u_id u) (api_keys s) \<noteq> []"
    using assms nf by (auto simp: delete_key_handler_def deleteApiKey_ok split: if_splits)
  then show "\<exists>k \<in> set (api_keys s). ak_id k = params_id req \<and> ak_user_id k = u_id u"
    by (auto simp: filter_empty_conv)
  show "api_keys (snd (delete_key_handler s req)) =
           filter (\<lambda>k. \<not> (ak_id k = params_id req \<and> ak_user_id k = u_id u)) (api_keys s)"
    using assms(1) nf ne by (simp add: delete_key_handler_def deleteApiKey_ok)
qed

text \<open>
  C8. The handler of \<^verbatim>\<open>DELETE /api/keys/:id\<close> runs on what \<^verbatim>\<open>authenticateToken\<close> passes
  on. For an authenticated request whose key id names no key of the requesting
  principal (the id does not exist, or the key has another owner), the key table is
  left as it was and, the store having executed the delete, the answer is 404 ``API
  key not found''. The handler never answers 403. It answers 200 only when a key
  with that id and that owner existed, and then exactly the keys matching both are
  gone.
\<close>

theorem delete_key_not_found_not_forbidden:
  assumes "user req = Some u"
  shows
  "(\<not> (\<exists>k \<in> set (api_keys s). ak_id k = params_id req \<and> ak_user_id k = u_id u) \<longrightarrow>
      api_keys (snd (delete_key_handler s req)) = api_keys s \<and>
      (fault s (DeleteKey (params_id req) (u_id u)) = None \<longrightarrow>
         fst (delete_key_handler s req) =
           \<lparr>status = 404, body = error_body ''API key not found''\<rparr>)) \<and>
   status (fst (delete_key_handler s req)) \<noteq> 403 \<and>
   (status (fst (delete_key_handler s req)) = 200 \<longrightarrow>
      (\<exists>k \<in> set (api_keys s). ak_id k = params_id req \<and> ak_user_id k = u_id u) \<and>
      api_keys (snd (delete_key_handler s req)) =
        filter (\<lambda>k. \<not> (ak_id k = params_id req \<and> ak_user_id k = u_id u)) (api_keys s)) \<and>
   (\<forall>D s0 r0. authenticateToken D s0 r0 = (Next, req, s) \<longrightarrow>
      delete_key_route D s0 r0 = delete_key_handler s req)"
proof -
  have 1: "\<not> (\<exists>k \<in> set (api_keys s). ak_id k = params_id req \<and> ak_user_id k = u_id u) \<longrightarrow>
      api_keys (snd (delete_key_handler s req)) = api_keys s \<and>
      (fault s (DeleteKey (params_id req) (u_id u)) = None \<longrightarrow>
         fst (delete_key_handler s req) =
           \<lparr>status = 404, body = error_body ''API key not found''\<rparr>)"
    using delete_key_handler_no_match [OF assms] by blast
  have 2: "status (fst (delete_key_handler s req)) \<noteq> 403"
    using delete_key_handler_status [of s req] by auto
  have 3: "status (fst (delete_key_handler s req)) = 200 \<longrightarrow>
      (\<exists>k \<in> set (api_keys s). ak_id k = params_id req \<and> ak_user_id k = u_id u) \<and>
      api_keys (snd (delete_key_handler s req)) =
        filter (\<lambda>k. \<not> (ak_id k = params_id req \<and> ak_user_id k = u_id u)) (api_keys s)"
    using delete_key_handler_success [OF assms] by blast
  have 4: "\<forall>D s0 r0. authenticateToken D s0 r0 = (Next, req, s) \<longrightarrow>
      delete_key_route D s0 r0 = delete_key_handler s req"
    by (simp add: delete_key_route_def)
  from 1 2 3 4 show ?thesis by blast
qed

theorem delete_key_not_found_not_forbidden_witness:
  "fst (delete_key_handler store0
          (req0\<lparr>user := Some (principal_of_profile alice), params_id := ''k1''\<rparr>)) =
     \<lparr>status = 404, body = error_body ''API key not found''\<rparr> \<and>
   api_keys (snd (delete_key_handler store0
          (req0\<lparr>user := Some (principal_of_profile alice), params_id := ''k1''\<rparr>))) = [bob_key] \<and>
   fst (delete_key_handler store0
          (req0\<lparr>user := Some (principal_of_profile bob), params_id := ''k7''\<rparr>)) =
     \<lparr>status = 404, body = error_body ''API key not found''\<rparr> \<and>
   status (fst (delete_key_handler store0
          (req0\<lparr>user := Some (principal_of_profile bob), params_id := ''k1''\<rparr>))) = 200 \<and>
   api_keys (snd (delete_key_handler store0
          (req0\<lparr>user := Some (principal_of_profile bob), params_id := ''k1''\<rparr>))) = []"
proof -
  let ?a = "req0\<lparr>user := Some (principal_of_profile alice), params_id := ''k1''\<rparr>"
  let ?b7 = "req0\<lparr>user := Some (principal_of_profile bob), params_id := ''k7''\<rparr>"
  let ?b1 = "req0\<lparr>user := Some (principal_of_profile bob), params_id := ''k1''\<rparr>"
  have ua: "user ?a = Some (principal_of_profile alice)"
    and ub7: "user ?b7 = Some (principal_of_profile bob)"
    and ub1: "user ?b1 = Some (principal_of_profile bob)"
    by (simp_all add: req0_def)
  have keys: "api_keys store0 = [bob_key]" by (simp add: store0_def)
  have na: "\<not> (\<exists>k \<in> set (api_keys store0). ak_id k = params_id ?a \<and>
                  ak_user_id k = u_id (principal_of_profile alice))"
    by (simp add: keys bob_key_def principal_of_profile_def alice_def req0_def)
  have nb: "\<not> (\<exists>k \<in> set (api_keys store0). ak_id k = params_id ?b7 \<and>
                  ak_user_id k = u_id (principal_of_profile bob))"
    by (simp add: keys bob_key_def principal_of_profile_def bob_def req0_def)
  have fa: "fault store0 (DeleteKey (params_id ?a) (u_id (principal_of_profile alice))) = None"
    and fb: "fault store0 (DeleteKey (params_id ?b7) (u_id (principal_of_profile bob))) = None"
    by (simp_all add: store0_def no_fault_def)
  have ok: "status (fst (delete_key_handler store0 ?b1)) = 200"
    by (simp add: delete_key_handler_def deleteApiKey_def delete_key_def store0_def no_fault_def
        req0_def principal_of_profile_def bob_def bob_key_def)
  have fl: "filter (\<lambda>k. \<not> (ak_id k = params_id ?b1 \<and> ak_user_id k = u_id (principal_of_profile bob)))
              (api_keys store0) = []"
    by (simp add: keys bob_key_def principal_of_profile_def bob_def req0_def)
  from delete_key_not_found_not_forbidden [OF ua, of store0] na fa keys
  have 1: "fst (delete_key_handler store0 ?a) =
              \<lparr>status = 404, body = error_body ''API key not found''\<rparr>"
    and 2: "api_keys (snd (delete_key_handler store0 ?a)) = [bob_key]"
    by simp_all
  from delete_key_not_found_not_forbidden [OF ub7, of store0] nb fb
  have 3: "fst (delete_key_handler store0 ?b7) =
              \<lparr>status = 404, body = error_body ''API key not found''\<rparr>"
    by simp
  from delete_key_not_found_not_forbidden [OF ub1, of store0] ok fl
  have 4: "api_keys (snd (delete_key_handler store0 ?b1)) = []"
    by simp
  from 1 2 3 ok 4 show ?thesis by blast
qed

section \<open>Extracting the bearer token\<close>

lemma optionalAuth_token:
  "bearer_token (headers_authorization req) = Some t \<Longrightarrow> t \<noteq> [] \<Longrightarrow>
   optionalAuth D s req = optional_jwt_branch D s req t"
  by (simp add: optionalAuth_def)

lemma optionalAuth_no_token:
  "\<not> truthy (bearer_token (headers_authorization req)) \<Longrightarrow>
   optionalAuth D s req = (Next, req, s)"
  by (simp add: optionalAuth_def truthy_def split: option.splits)

text \<open>
  C10 (as the code has it). The token is the text between the first and the second
  space of the Authorization header, whatever precedes the first space. When the
  header contains a space and that text is not empty, \<^verbatim>\<open>authenticateToken\<close> (on a
  request with no principal attached) and \<^verbatim>\<open>optionalAuth\<close> verify it as bearer token.
  When that text is empty (the header ends with a space, or two spaces follow each
  other), and when the header contains no space, no bearer credential is
  recognised: \<^verbatim>\<open>authenticateToken\<close> goes on to the API-key check, which is the API-key
  path for a non-empty X-API-Key header and 401 ``Authentication required''
  otherwise, and \<^verbatim>\<open>optionalAuth\<close> passes the request on unchanged.
\<close>

theorem bearer_token_extraction:
  assumes "headers_authorization req = Some h"
  shows
  "(CHR '' '' \<in> set h \<longrightarrow> after_first_space h \<noteq> [] \<longrightarrow>
      (user req = None \<longrightarrow>
         authenticateToken D s req = jwt_branch D s req (after_first_space h)) \<and>
      optionalAuth D s req = optional_jwt_branch D s req (after_first_space h)) \<and>
   (CHR '' '' \<in> set h \<longrightarrow> after_first_space h = [] \<longrightarrow>
      (user req = None \<longrightarrow> authenticateToken D s req = after_token D s req) \<and>
      optionalAuth D s req = (Next, req, s)) \<and>
   (CHR '' '' \<notin> set h \<longrightarrow>
      (user req = None \<longrightarrow> authenticateToken D s req = after_token D s req) \<and>
      optionalAuth D s req = (Next, req, s)) \<and>
   (\<forall>k. headers_x_api_key req = Some k \<longrightarrow> k \<noteq> [] \<longrightarrow>
      after_token D s req = apikey_branch D s req k) \<and>
   (\<not> truthy (headers_x_api_key req) \<longrightarrow>
      after_token D s req =
        (Respond \<lparr>status = 401, body = error_body ''Authentication required''\<rparr>, req, s))"
proof -
  have 1: "CHR '' '' \<in> set h \<longrightarrow> after_first_space h \<noteq> [] \<longrightarrow>
      (user req = None \<longrightarrow>
         authenticateToken D s req = jwt_branch D s req (after_first_space h)) \<and>
      optionalAuth D s req = optional_jwt_branch D s req (after_first_space h)"
    using assms by (simp add: bearer_token_space authenticateToken_token optionalAuth_token)
  have 2: "CHR '' '' \<in> set h \<longrightarrow> after_first_space h = [] \<longrightarrow>
      (user req = None \<longrightarrow> authenticateToken D s req = after_token D s req) \<and>
      optionalAuth D s req = (Next, req, s)"
    using assms
    by (simp add: bearer_token_space authenticateToken_no_token optionalAuth_no_token truthy_def)
  have 3: "CHR '' '' \<notin> set h \<longrightarrow>
      (user req = None \<longrightarrow> authenticateToken D s req = after_token D s req) \<and>
      optionalAuth D s req = (Next, req, s)"
    using assms bearer_token_no_space [of h]
    by (simp add: authenticateToken_no_token optionalAuth_no_token)
  have 4: "\<forall>k. headers_x_api_key req = Some k \<longrightarrow> k \<noteq> [] \<longrightarrow>
      after_token D s req = apikey_branch D s req k"
    by (simp add: after_token_key)
  have 5: "\<not> truthy (headers_x_api_key req) \<longrightarrow>
      after_token D s req =
        (Respond \<lparr>status = 401, body = error_body ''Authentication required''\<rparr>, req, s)"
    by (simp add: after_token_no_key)
  from 1 2 3 4 5 show ?thesis by blast
qed

theorem bearer_token_extraction_witness:
  "authenticateToken deps0 store0 (req0\<lparr>headers_authorization := Some ''Basic alice-token''\<rparr>) =
     jwt_branch deps0 store0 (req0\<lparr>headers_authorization := Some ''Basic alice-token''\<rparr>) ''alice-token'' \<and>
   authenticateToken deps0 store0 (req0\<lparr>headers_authorization := Some ''alice-token''\<rparr>) =
     (Respond \<lparr>status = 401, body = error_body ''Authentication required''\<rparr>,
      req0\<lparr>headers_authorization := Some ''alice-token''\<rparr>, store0) \<and>
   optionalAuth deps0 store0 (req0\<lparr>headers_authorization := Some ''Bearer  alice-token''\<rparr>) =
     (Next, req0\<lparr>headers_authorization := Some ''Bearer  alice-token''\<rparr>, store0)"
proof -
  let ?basic = "req0\<lparr>headers_authorization := Some ''Basic alice-token''\<rparr>"
  let ?bare = "req0\<lparr>headers_authorization := Some ''alice-token''\<rparr>"
  let ?two = "req0\<lparr>headers_authorization := Some ''Bearer  alice-token''\<rparr>"
  have h: "headers_authorization ?basic = Some ''Basic alice-token''"
    "headers_authorization ?bare = Some ''alice-token''"
    "headers_authorization ?two = Some ''Bearer  alice-token''"
    by simp_all
  have u: "user ?basic = None" "user ?bare = None" "\<not> truthy (headers_x_api_key ?bare)"
    by (simp_all add: req0_def truthy_def)
  have a: "CHR '' '' \<in> set ''Basic alice-token''" "after_first_space ''Basic alice-token'' = ''alice-token''"
    by (simp_all add: after_first_space_def)
  have b: "CHR '' '' \<notin> set ''alice-token''" by simp
  have c: "CHR '' '' \<in> set ''Bearer  alice-token''" "after_first_space ''Bearer  alice-token'' = []"
    by (simp_all add: after_first_space_def)
  from bearer_token_extraction [OF h(1), of deps0 store0] a u(1)
  have 1: "authenticateToken deps0 store0 ?basic = jwt_branch deps0 store0 ?basic ''alice-token''"
    by simp
  from bearer_token_extraction [OF h(2), of deps0 store0] b u(2,3)
  have 2: "authenticateToken deps0 store0 ?bare =
     (Respond \<lparr>status = 401, body = error_body ''Authentication required''\<rparr>, ?bare, store0)"
    by simp
  from bearer_token_extraction [OF h(3), of deps0 store0] c
  have 3: "optionalAuth deps0 store0 ?two = (Next, ?two, store0)"
    by simp
  from 1 2 3 show ?thesis by blast
qed

theorem empty_second_field_counterexample:
  "CHR '' '' \<in> set ''Bearer  alice-token'' \<and>
   jwt_verify deps0 ''alice-token'' = Inr \<lparr>userId = ''u1'', username = ''alice'', role = ''admin''\<rparr> \<and>
   bearer_token (Some ''Bearer  alice-token'') = Some [] \<and>
   authenticateToken deps0 store0 (req0\<lparr>headers_authorization := Some ''Bearer  alice-token''\<rparr>) =
     (Respond \<lparr>status = 401, body = error_body ''Authentication required''\<rparr>,
      req0\<lparr>headers_authorization := Some ''Bearer  alice-token''\<rparr>, store0) \<and>
   fst (jwt_branch deps0 store0 (req0\<lparr>headers_authorization := Some ''Bearer  alice-token''\<rparr>) [])
     = Respond \<lparr>status = 403, body = error_body ''Invalid or expired token''\<rparr>"
proof -
  have 1: "CHR '' '' \<in> set ''Bearer  alice-token''" by simp
  have 2: "jwt_verify deps0 ''alice-token'' =
             Inr \<lparr>userId = ''u1'', username = ''alice'', role = ''admin''\<rparr>"
    by (simp add: deps0_def verify0_def)
  have 3: "bearer_token (Some ''Bearer  alice-token'') = Some []"
    by (simp add: bearer_token_space after_first_space_def)
  have 4: "authenticateToken deps0 store0 (req0\<lparr>headers_authorization := Some ''Bearer  alice-token''\<rparr>) =
     (Respond \<lparr>status = 401, body = error_body ''Authentication required''\<rparr>,
      req0\<lparr>headers_authorization := Some ''Bearer  alice-token''\<rparr>, store0)"
    by (simp add: authenticateToken_def 3 after_token_def req0_def)
  have v: "jwt_verify deps0 [] = Inl JsonWebTokenError" by (simp add: deps0_def verify0_def)
  have 5: "fst (jwt_branch deps0 store0 (req0\<lparr>headers_authorization := Some ''Bearer  alice-token''\<rparr>) [])
     = Respond \<lparr>status = 403, body = error_body ''Invalid or expired token''\<rparr>"
    by (simp add: jwt_branch_verify_fails [OF v])
  from 1 2 3 4 5 show ?thesis by blast
qed

end
